theory Spec2Isabelle
  imports Main "HOL-Library.Signed_Division" "HOL-Library.Multiset"
begin

section \<open>Lane-mode reconfiguration of a port group (BcmPortGroup.cpp)\<close>

text \<open>
  A shallow embedding of \<^verbatim>\<open>fboss/agent/hw/bcm/BcmPortGroup.cpp\<close>. Pure helpers of the
  anonymous namespace are HOL functions returning \<open>FbossError + 'a\<close>; the member
  functions that drive the switch are state transformers over a record of the
  port group, the port table and the trace of calls issued to the device.
\<close>

subsection \<open>Data\<close>

type_synonym PortID = nat
type_synonym bcm_port_t = int
type_synonym PortProfileID = nat

text \<open>
  \<^verbatim>\<open>cfg::PortSpeed\<close> is a thrift enum that the source only ever reads through
  \<^verbatim>\<open>static_cast<int>\<close>; a speed is modelled as that integer (Mbps). The C++ \<^verbatim>\<open>int\<close>
  has 32 bits and \<open>INT_MIN\<close> is its least value. The only arithmetic the source
  does on speeds is \<^verbatim>\<open>std::div\<close>, whose one overflow, the division of \<open>INT_MIN\<close>
  by \<open>-1\<close>, is written out in \<open>std_div\<close> below.
\<close>

type_synonym PortSpeed = int

definition INT_MIN :: int where
  "INT_MIN = - 2147483648"

text \<open>
  Modelled from the spec: the enumerators of \<^verbatim>\<open>cfg::PortSpeed\<close> are declared in the
  thrift interface file, which is not among the sources. The spec calls
  \<^verbatim>\<open>PortSpeed::DEFAULT\<close> the unspecified/default sentinel; thrift numbers it 0.
\<close>

definition DEFAULT :: PortSpeed where
  "DEFAULT = 0"

text \<open>
  Modelled from the spec: \<^verbatim>\<open>BcmPortGroup::LaneMode\<close> is declared in BcmPortGroup.h,
  which is not among the sources. The spec gives the ordered enumeration
  SINGLE=1, DUAL=2, QUAD=4. The source builds values of the type from a
  \<^verbatim>\<open>uint8_t\<close> with \<^verbatim>\<open>static_cast\<close>, compares them with \<^verbatim>\<open>>\<close> and passes them where an
  \<^verbatim>\<open>unsigned\<close> lane count is expected, so a lane mode is modelled as its underlying
  number: the three enumerators are three of its values.
\<close>

type_synonym LaneMode = nat

abbreviation SINGLE :: LaneMode where "SINGLE \<equiv> 1"
abbreviation DUAL :: LaneMode where "DUAL \<equiv> 2"
abbreviation QUAD :: LaneMode where "QUAD \<equiv> 4"

text \<open>The switch-state port (\<^verbatim>\<open>state/Port.h\<close>), read through its getters.\<close>

record Port =
  getID :: PortID
  getName :: string
  isEnabled :: bool
  getSpeed :: PortSpeed
  getProfileID :: PortProfileID

text \<open>
  Calls made to the device and to the collaborators that own it. The trace
  of these calls is what the claims about register writes, trap controls and
  notifications speak of.
\<close>

datatype SwitchControl =
  bcmSwitchArpRequestToCpu | bcmSwitchArpReplyToCpu | bcmSwitchDhcpPktDrop
  | bcmSwitchDhcpPktToCpu | bcmSwitchNdPktToCpu

datatype HwCall =
  PortControlSetLanes bcm_port_t nat
  | PortControlGetLanes bcm_port_t
  | L2AddrDeleteByPort bcm_port_t int
  | SwitchControlPortSet bcm_port_t SwitchControl bool
  | DisableLinkscan PortID
  | DisablePort PortID
  | EnableLinkscan PortID
  | ResourceRemovePorts "PortID list"
  | ResourceAddPorts "PortID list"
  | ResourceProgram
  | LinkSpeedChanged PortID PortSpeed

text \<open>
  One constructor for each \<^verbatim>\<open>throw\<close> of the file, named after the spec's
  taxonomy. \<open>DivideByZero\<close> and \<open>DivideOverflow\<close> are not C++ exceptions: they
  stand for the undefined behaviour of \<^verbatim>\<open>std::div\<close> with a zero divisor and with
  a quotient that does not fit 32 bits (the processor's divide fault), which no
  \<^verbatim>\<open>catch\<close> intercepts.
\<close>

datatype FbossError =
  InvalidConfig
  | UnsupportedSpeed PortSpeed
  | InvalidPlacement nat LaneMode
  | InvalidLaneCount nat
  | CantFindSwPort PortID
  | UnknownProfile string PortProfileID
  | PortDoesNotSupportSpeed PortID PortSpeed
  | UnsupportedPlatformOperation PortID
  | HardwareCallFailure int HwCall
  | NoSuchPort PortID
  | DivideByZero
  | DivideOverflow

definition undefinedBehaviour :: "FbossError \<Rightarrow> bool" where
  "undefinedBehaviour ex = (ex = DivideByZero \<or> ex = DivideOverflow)"

subsection \<open>The lane-mode calculator\<close>

text \<open>
  \<^verbatim>\<open>std::div\<close> on two 32-bit \<^verbatim>\<open>int\<close>s: the quotient truncated towards zero and the
  remainder (\<open>sdiv\<close>, \<open>smod\<close>). With a zero divisor, and with \<open>INT_MIN\<close> divided by
  \<open>-1\<close>, whose quotient is not a 32-bit value, the behaviour is undefined.
\<close>

definition std_div :: "int \<Rightarrow> int \<Rightarrow> FbossError + int \<times> int" where
  "std_div x y =
    (if y = 0 then Inl DivideByZero
     else if x = INT_MIN \<and> y = - 1 then Inl DivideOverflow
     else Inr (x sdiv y, x smod y))"

text \<open>
  \<^verbatim>\<open>neededLaneModeForSpeed\<close>, lines 41-66. The loop over \<^verbatim>\<open>laneSpeeds\<close> is the
  recursion.
\<close>

fun neededLaneModeForSpeed_loop :: "PortSpeed \<Rightarrow> PortSpeed list \<Rightarrow> FbossError + LaneMode" where
  "neededLaneModeForSpeed_loop speed [] = Inl (UnsupportedSpeed speed)"
| "neededLaneModeForSpeed_loop speed (laneSpeed # rest) =
    (case std_div speed laneSpeed of
       Inl ub \<Rightarrow> Inl ub
     | Inr (quot, rem) \<Rightarrow>
         if rem \<noteq> 0 then neededLaneModeForSpeed_loop speed rest
         else let neededLanes = quot in
           if neededLanes = 1 then Inr SINGLE
           else if neededLanes = 2 then Inr DUAL
           else if neededLanes > 2 \<and> neededLanes \<le> 4 then Inr QUAD
           else neededLaneModeForSpeed_loop speed rest)"

definition neededLaneModeForSpeed :: "PortSpeed \<Rightarrow> PortSpeed list \<Rightarrow> FbossError + LaneMode" where
  "neededLaneModeForSpeed speed laneSpeeds =
    (if speed = DEFAULT then Inl InvalidConfig
     else neededLaneModeForSpeed_loop speed laneSpeeds)"

text \<open>\<^verbatim>\<open>checkLaneModeisValid\<close>, lines 68-78.\<close>

definition checkLaneModeisValid :: "nat \<Rightarrow> LaneMode \<Rightarrow> FbossError + unit" where
  "checkLaneModeisValid lane desiredMode =
    (if desiredMode = QUAD then
       (if lane \<noteq> 0 then Inl (InvalidPlacement lane desiredMode) else Inr ())
     else if desiredMode = DUAL then
       (if lane \<noteq> 0 \<and> lane \<noteq> 2 then Inl (InvalidPlacement lane desiredMode) else Inr ())
     else Inr ())"

text \<open>\<^verbatim>\<open>getSwPortIf\<close> and \<^verbatim>\<open>getSwPort\<close>, lines 86-106.\<close>

fun getSwPortIf :: "Port list \<Rightarrow> PortID \<Rightarrow> Port option" where
  "getSwPortIf [] ident = None"
| "getSwPortIf (port # ports) ident =
    (if getID port = ident then Some port else getSwPortIf ports ident)"

definition getSwPort :: "Port list \<Rightarrow> PortID \<Rightarrow> FbossError + Port" where
  "getSwPort ports ident =
    (case getSwPortIf ports ident of
       Some port \<Rightarrow> Inr port
     | None \<Rightarrow> Inl (CantFindSwPort ident))"

text \<open>
  \<^verbatim>\<open>numLanesToLaneMode\<close>, lines 140-147. The \<^verbatim>\<open>try\<close> block holds a single
  \<^verbatim>\<open>static_cast\<close> from \<^verbatim>\<open>uint8_t\<close> to the enumeration, which yields the value with
  that number and raises nothing, whatever the number is; the \<^verbatim>\<open>catch\<close> clause is
  kept as the branch it is.
\<close>

definition static_cast_LaneMode :: "nat \<Rightarrow> FbossError + LaneMode" where
  "static_cast_LaneMode numLanes = Inr numLanes"

definition numLanesToLaneMode :: "nat \<Rightarrow> FbossError + LaneMode" where
  "numLanesToLaneMode numLanes =
    (case static_cast_LaneMode numLanes of
       Inr mode \<Rightarrow> Inr mode
     | Inl ex \<Rightarrow> Inl (InvalidLaneCount numLanes))"

text \<open>The conversion of an \<^verbatim>\<open>int\<close> argument to the \<^verbatim>\<open>uint8_t\<close> parameter.\<close>

definition to_uint8 :: "int \<Rightarrow> nat" where
  "to_uint8 n = nat (n mod 256)"

text \<open>
  \<^verbatim>\<open>calculateDesiredLaneMode\<close>, lines 149-167: the loop carries the lane index
  and the running \<^verbatim>\<open>desiredMode\<close>.
\<close>

fun calculateDesiredLaneMode_loop ::
  "PortSpeed list \<Rightarrow> nat \<Rightarrow> LaneMode \<Rightarrow> Port list \<Rightarrow> FbossError + LaneMode" where
  "calculateDesiredLaneMode_loop laneSpeeds lane desiredMode [] = Inr desiredMode"
| "calculateDesiredLaneMode_loop laneSpeeds lane desiredMode (port # ports) =
    (if isEnabled port then
       (case neededLaneModeForSpeed (getSpeed port) laneSpeeds of
          Inl ex \<Rightarrow> Inl ex
        | Inr neededMode \<Rightarrow>
            (let desiredMode' = (if neededMode > desiredMode then neededMode else desiredMode) in
             case checkLaneModeisValid lane desiredMode' of
               Inl ex \<Rightarrow> Inl ex
             | Inr u \<Rightarrow> calculateDesiredLaneMode_loop laneSpeeds (lane + 1) desiredMode' ports))
     else calculateDesiredLaneMode_loop laneSpeeds (lane + 1) desiredMode ports)"

definition calculateDesiredLaneMode :: "Port list \<Rightarrow> PortSpeed list \<Rightarrow> FbossError + LaneMode" where
  "calculateDesiredLaneMode ports laneSpeeds =
    calculateDesiredLaneMode_loop laneSpeeds 0 SINGLE ports"

text \<open>
  \<^verbatim>\<open>calculateDesiredLaneModeFromConfig\<close>, lines 169-197. The table maps a profile
  to the \<^verbatim>\<open>iphy.numLanes\<close> of its \<^verbatim>\<open>phy::PortProfileConfig\<close>.
\<close>

fun calculateDesiredLaneModeFromConfig_loop ::
  "(PortProfileID \<rightharpoonup> int) \<Rightarrow> LaneMode \<Rightarrow> Port list \<Rightarrow> FbossError + LaneMode" where
  "calculateDesiredLaneModeFromConfig_loop supportedProfiles desiredMode [] = Inr desiredMode"
| "calculateDesiredLaneModeFromConfig_loop supportedProfiles desiredMode (port # ports) =
    (if isEnabled port then
       (case supportedProfiles (getProfileID port) of
          None \<Rightarrow> Inl (UnknownProfile (getName port) (getProfileID port))
        | Some numLanes \<Rightarrow>
            (case numLanesToLaneMode (to_uint8 numLanes) of
               Inl ex \<Rightarrow> Inl ex
             | Inr neededMode \<Rightarrow>
                 calculateDesiredLaneModeFromConfig_loop supportedProfiles
                   (if neededMode > desiredMode then neededMode else desiredMode) ports))
     else calculateDesiredLaneModeFromConfig_loop supportedProfiles desiredMode ports)"

definition calculateDesiredLaneModeFromConfig ::
  "Port list \<Rightarrow> (PortProfileID \<rightharpoonup> int) \<Rightarrow> FbossError + LaneMode" where
  "calculateDesiredLaneModeFromConfig ports supportedProfiles =
    calculateDesiredLaneModeFromConfig_loop supportedProfiles SINGLE ports"

subsection \<open>The switch, the port table and the group\<close>

text \<open>
  A \<^verbatim>\<open>BcmPort*\<close> is a handle into a store of port objects; the port table maps
  a port identifier to the handle of its live object. Objects dropped from the
  table stay in the store (an arena), so a handle always denotes an object.
  \<^verbatim>\<open>portGroup\<close> is what \<^verbatim>\<open>registerInPortGroup\<close> records. Member names are written
  without the trailing underscore of the source (\<^verbatim>\<open>laneMode_\<close> is \<open>laneMode\<close>).
\<close>

type_synonym Handle = nat
type_synonym GroupId = nat

record BcmPort =
  getPortID :: PortID
  getBcmPortId :: bcm_port_t
  portGroup :: "GroupId option"

type_synonym SwitchState = "PortID \<rightharpoonup> Port"

text \<open>
  What the file reads from collaborators that are not among the sources, taken
  as parameters: the platform's port mapping and capabilities, the answers of
  \<^verbatim>\<open>BcmPort::supportsSpeed\<close> and \<^verbatim>\<open>supportedLaneSpeeds\<close> and of
  \<^verbatim>\<open>PlatformPort::shouldUsePortResourceAPIs\<close> (by port identifier), the ports
  \<^verbatim>\<open>BcmPortResourceBuilder::addPorts\<close> returns, the SDK's logical port of a new
  port, and the device itself: the status its SDK returns for a call after a
  history of calls, and the lane count \<^verbatim>\<open>bcm_port_control_get\<close> reads.
\<close>

record Platform =
  getPlatformPorts :: "PortID list"
  getPlatformPortsByControllingPort :: "PortID \<Rightarrow> PortID list"
  supportedProfiles_ref :: "(PortProfileID \<rightharpoonup> int) option"
  supportsAddRemovePort :: bool
  shouldUsePortResourceAPIs :: "PortID \<Rightarrow> bool"
  supportsSpeed :: "PortID \<Rightarrow> PortSpeed \<Rightarrow> bool"
  supportedLaneSpeeds :: "PortID \<Rightarrow> PortSpeed list"
  addedPorts :: "LaneMode \<Rightarrow> Port list \<Rightarrow> Port list"
  logicalPort :: "PortID \<Rightarrow> bcm_port_t"
  sdk_rv :: "HwCall list \<Rightarrow> HwCall \<Rightarrow> int"
  sdk_lanes :: "HwCall list \<Rightarrow> bcm_port_t \<Rightarrow> int"

text \<open>
  The mutable state: the store and table of \<^verbatim>\<open>BcmSwitch\<close>, the trace of calls
  issued so far, and the members of the one \<^verbatim>\<open>BcmPortGroup\<close> under study.
\<close>

record World =
  bcmPorts :: "Handle \<Rightarrow> BcmPort"
  nextHandle :: Handle
  portTable :: "PortID \<rightharpoonup> Handle"
  trace :: "HwCall list"
  thisGroup :: GroupId
  controllingPort :: Handle
  allPorts :: "Handle list"
  laneMode :: LaneMode

subsection \<open>Exceptions and state\<close>

text \<open>
  A member function is a function from the state to an outcome and the state
  it leaves: \<open>Inl\<close> is the exception in flight. The state is kept on a throw,
  because nothing is rolled back.
\<close>

type_synonym 'a M = "World \<Rightarrow> (FbossError + 'a) \<times> World"

definition returnM :: "'a \<Rightarrow> 'a M" where
  "returnM x = (\<lambda>w. (Inr x, w))"

definition throwM :: "FbossError \<Rightarrow> 'a M" where
  "throwM ex = (\<lambda>w. (Inl ex, w))"

definition bindM :: "'a M \<Rightarrow> ('a \<Rightarrow> 'b M) \<Rightarrow> 'b M" where
  "bindM m f = (\<lambda>w. case m w of (Inl ex, w') \<Rightarrow> (Inl ex, w') | (Inr x, w') \<Rightarrow> f x w')"

definition liftE :: "FbossError + 'a \<Rightarrow> 'a M" where
  "liftE r = (\<lambda>w. (r, w))"

definition readW :: "(World \<Rightarrow> 'a) \<Rightarrow> 'a M" where
  "readW f = (\<lambda>w. (Inr (f w), w))"

definition modifyW :: "(World \<Rightarrow> World) \<Rightarrow> unit M" where
  "modifyW f = (\<lambda>w. (Inr (), f w))"

text \<open>A range-based \<^verbatim>\<open>for\<close> loop, and one that collects a vector with \<^verbatim>\<open>push_back\<close>.\<close>

fun forM :: "('a \<Rightarrow> unit M) \<Rightarrow> 'a list \<Rightarrow> unit M" where
  "forM body [] w = (Inr (), w)"
| "forM body (x # xs) w =
    (case body x w of (Inl ex, w') \<Rightarrow> (Inl ex, w') | (Inr u, w') \<Rightarrow> forM body xs w')"

fun mapM :: "('a \<Rightarrow> 'b M) \<Rightarrow> 'a list \<Rightarrow> 'b list M" where
  "mapM body [] w = (Inr [], w)"
| "mapM body (x # xs) w =
    (case body x w of
       (Inl ex, w') \<Rightarrow> (Inl ex, w')
     | (Inr y, w') \<Rightarrow>
         (case mapM body xs w' of
            (Inl ex, w'') \<Rightarrow> (Inl ex, w'')
          | (Inr ys, w'') \<Rightarrow> (Inr (y # ys), w'')))"

text \<open>
  \<^verbatim>\<open>try { ... } catch (const std::exception& ex) { ... }\<close>: every exception is
  handled; undefined behaviour is not an exception and passes through.
\<close>

definition tryCatch :: "'a M \<Rightarrow> (FbossError \<Rightarrow> 'a M) \<Rightarrow> 'a M" where
  "tryCatch m handler =
    (\<lambda>w. case m w of
       (Inr x, w') \<Rightarrow> (Inr x, w')
     | (Inl ex, w') \<Rightarrow>
         (if undefinedBehaviour ex then (Inl ex, w') else handler ex w'))"

subsection \<open>The device and the collaborators\<close>

text \<open>An SDK call: it is appended to the trace and its status is returned.\<close>

definition sdk :: "Platform \<Rightarrow> HwCall \<Rightarrow> int M" where
  "sdk P c = (\<lambda>w. (Inr (sdk_rv P (trace w) c), w\<lparr>trace := trace w @ [c]\<rparr>))"

text \<open>
  Modelled from the spec: \<^verbatim>\<open>bcmCheckError\<close> is declared in BcmError.h, which is not
  among the sources. The spec: a device call that returns a non-success status
  fails with HardwareCallFailure, carrying the native status code and the
  operation. A status is a failure when it is negative, as in the SDK.
\<close>

definition bcmCheckError :: "int \<Rightarrow> HwCall \<Rightarrow> unit M" where
  "bcmCheckError rv c = (if rv < 0 then throwM (HardwareCallFailure rv c) else returnM ())"

definition checked :: "Platform \<Rightarrow> HwCall \<Rightarrow> unit M" where
  "checked P c = bindM (sdk P c) (\<lambda>rv. bcmCheckError rv c)"

text \<open>\<^verbatim>\<open>setLanesControl\<close>, lines 80-84.\<close>

definition setLanesControl :: "Platform \<Rightarrow> bcm_port_t \<Rightarrow> nat \<Rightarrow> unit M" where
  "setLanesControl P port lanes =
    bindM (sdk P (PortControlSetLanes port lanes))
      (\<lambda>rv. bcmCheckError rv (PortControlSetLanes port lanes))"

text \<open>
  Modelled from the spec: \<^verbatim>\<open>BcmPort::disableLinkscan\<close>, \<^verbatim>\<open>BcmPort::disable\<close> and
  \<^verbatim>\<open>BcmPort::enableLinkscan\<close> are defined in BcmPort.cpp, which is not among the
  sources. The spec lists them as capabilities of the device
  (disableLinkscan(portId), disablePort(portId), enableLinkscan(portId)), any of
  which may fail with HardwareCallFailure.
\<close>

definition disableLinkscan :: "Platform \<Rightarrow> Handle \<Rightarrow> unit M" where
  "disableLinkscan P bcmPort =
    bindM (readW (\<lambda>w. getPortID (bcmPorts w bcmPort))) (\<lambda>ident. checked P (DisableLinkscan ident))"

definition disable :: "Platform \<Rightarrow> Handle \<Rightarrow> Port \<Rightarrow> unit M" where
  "disable P bcmPort swPort =
    bindM (readW (\<lambda>w. getPortID (bcmPorts w bcmPort))) (\<lambda>ident. checked P (DisablePort ident))"

definition enableLinkscan :: "Platform \<Rightarrow> Handle \<Rightarrow> unit M" where
  "enableLinkscan P bcmPort =
    bindM (readW (\<lambda>w. getPortID (bcmPorts w bcmPort))) (\<lambda>ident. checked P (EnableLinkscan ident))"

text \<open>
  Modelled from the spec: \<^verbatim>\<open>PlatformPort::linkSpeedChanged\<close> is not among the
  sources. The spec: a notification to the port's platform-port collaborator,
  carrying the new speed.
\<close>

definition linkSpeedChanged :: "Handle \<Rightarrow> PortSpeed \<Rightarrow> unit M" where
  "linkSpeedChanged bcmPort speed =
    modifyW (\<lambda>w. w\<lparr>trace := trace w @ [LinkSpeedChanged (getPortID (bcmPorts w bcmPort)) speed]\<rparr>)"

text \<open>
  Modelled from the spec: \<^verbatim>\<open>BcmPortTable\<close> is not among the sources. The spec's
  PortTable capability: removeEntry(portId) drops the entry of an identifier,
  addEntry(portId) inserts an entry for a newly created port with its new handle,
  lookup(portId) resolves an identifier to its live handle. A lookup of an
  identifier that has no entry throws. A new port object is allocated at the
  next free handle, with the SDK's logical port of its identifier and no group.
\<close>

definition removeBcmPort :: "PortID \<Rightarrow> unit M" where
  "removeBcmPort ident = modifyW (\<lambda>w. w\<lparr>portTable := (portTable w)(ident := None)\<rparr>)"

definition newBcmPort :: "Platform \<Rightarrow> PortID \<Rightarrow> BcmPort" where
  "newBcmPort P ident =
    \<lparr>getPortID = ident, getBcmPortId = logicalPort P ident, portGroup = None\<rparr>"

definition addBcmPort :: "Platform \<Rightarrow> PortID \<Rightarrow> unit M" where
  "addBcmPort P ident =
    modifyW (\<lambda>w. w\<lparr>
      bcmPorts := (bcmPorts w)(nextHandle w := newBcmPort P ident),
      nextHandle := Suc (nextHandle w),
      portTable := (portTable w)(ident \<mapsto> nextHandle w)\<rparr>)"

definition getBcmPort :: "PortID \<Rightarrow> Handle M" where
  "getBcmPort ident =
    (\<lambda>w. case portTable w ident of
       None \<Rightarrow> (Inl (NoSuchPort ident), w)
     | Some bcmPort \<Rightarrow> (Inr bcmPort, w))"

text \<open>
  Modelled from the spec: \<^verbatim>\<open>BcmPort::registerInPortGroup\<close> is not among the sources.
  The spec: the member is registered as belonging to the group.
\<close>

definition registerInPortGroup :: "Handle \<Rightarrow> unit M" where
  "registerInPortGroup member =
    modifyW (\<lambda>w. w\<lparr>bcmPorts := (bcmPorts w)(member :=
      (bcmPorts w member)\<lparr>portGroup := Some (thisGroup w)\<rparr>)\<rparr>)"

text \<open>
  Modelled from the spec: \<^verbatim>\<open>BcmPortResourceBuilder\<close> is not among the sources. The
  spec's ResourceBuilder capability: removePorts(handles), addPorts(specs)
  returning the newly created ports, and program(), each a device operation
  that may fail with HardwareCallFailure.
\<close>

definition removePorts :: "Platform \<Rightarrow> Handle list \<Rightarrow> unit M" where
  "removePorts P ports =
    bindM (readW (\<lambda>w. map (\<lambda>port. getPortID (bcmPorts w port)) ports))
      (\<lambda>idents. checked P (ResourceRemovePorts idents))"

definition addPorts :: "Platform \<Rightarrow> LaneMode \<Rightarrow> Port list \<Rightarrow> Port list M" where
  "addPorts P desiredLaneMode ports =
    bindM (checked P (ResourceAddPorts (map getID ports)))
      (\<lambda>u. returnM (addedPorts P desiredLaneMode ports))"

definition program :: "Platform \<Rightarrow> unit M" where
  "program P = checked P ResourceProgram"

text \<open>
  \<^verbatim>\<open>BcmPort::getSwitchStatePort\<close> is not among the sources: it is taken to look the
  port up in the state by its identifier and to throw when there is none.
\<close>

definition getSwitchStatePort :: "SwitchState \<Rightarrow> BcmPort \<Rightarrow> FbossError + Port" where
  "getSwitchStatePort state bcmPort =
    (case state (getPortID bcmPort) of
       None \<Rightarrow> Inl (NoSuchPort (getPortID bcmPort))
     | Some swPort \<Rightarrow> Inr swPort)"

subsection \<open>The member functions of BcmPortGroup\<close>



text \<open>\<^verbatim>\<open>getSwPorts\<close>, lines 199-231: one loop for each branch.\<close>

fun getSwPorts_platform :: "SwitchState \<Rightarrow> PortID list \<Rightarrow> Port list" where
  "getSwPorts_platform state [] = []"
| "getSwPorts_platform state (ident # portList) =
    (case state ident of
       Some swPort \<Rightarrow> swPort # getSwPorts_platform state portList
     | None \<Rightarrow> getSwPorts_platform state portList)"

fun getSwPorts_bcm :: "Platform \<Rightarrow> SwitchState \<Rightarrow> BcmPort list \<Rightarrow> FbossError + Port list" where
  "getSwPorts_bcm P state [] = Inr []"
| "getSwPorts_bcm P state (bcmPort # rest) =
    (case getSwitchStatePort state bcmPort of
       Inl ex \<Rightarrow> Inl ex
     | Inr swPort \<Rightarrow>
         (if \<not> supportsSpeed P (getPortID bcmPort) (getSpeed swPort)
          then Inl (PortDoesNotSupportSpeed (getID swPort) (getSpeed swPort))
          else (case getSwPorts_bcm P state rest of
                  Inl ex \<Rightarrow> Inl ex
                | Inr ports \<Rightarrow> Inr (swPort # ports))))"

definition getSwPorts :: "Platform \<Rightarrow> SwitchState \<Rightarrow> Port list M" where
  "getSwPorts P state =
    (\<lambda>w. (if getPlatformPorts P \<noteq> []
           then Inr (getSwPorts_platform state
                  (getPlatformPortsByControllingPort P (getPortID (bcmPorts w (controllingPort w)))))
           else getSwPorts_bcm P state (map (bcmPorts w) (allPorts w)), w))"


text \<open>\<^verbatim>\<open>validConfiguration\<close>, lines 237-256.\<close>

definition validConfiguration :: "Platform \<Rightarrow> SwitchState \<Rightarrow> bool M" where
  "validConfiguration P state =
    tryCatch
      (bindM (getSwPorts P state) (\<lambda>ports.
       bindM (case supportedProfiles_ref P of
                Some supportedProfiles \<Rightarrow>
                  liftE (calculateDesiredLaneModeFromConfig ports supportedProfiles)
              | None \<Rightarrow>
                  bindM (readW (\<lambda>w. supportedLaneSpeeds P (getPortID (bcmPorts w (controllingPort w)))))
                    (\<lambda>laneSpeeds. liftE (calculateDesiredLaneMode ports laneSpeeds))) (\<lambda>mode.
       returnM True)))
      (\<lambda>ex. returnM False)"

text \<open>\<^verbatim>\<open>setPortSpecificControls\<close>, lines 298-347: five checked SDK calls.\<close>

definition switchControlPortSet :: "Platform \<Rightarrow> bcm_port_t \<Rightarrow> SwitchControl \<Rightarrow> bool \<Rightarrow> unit M" where
  "switchControlPortSet P port control enable =
    bindM (sdk P (SwitchControlPortSet port control enable))
      (\<lambda>rv. bcmCheckError rv (SwitchControlPortSet port control enable))"

definition setPortSpecificControls :: "Platform \<Rightarrow> Handle \<Rightarrow> bool \<Rightarrow> unit M" where
  "setPortSpecificControls P bcmPort enable =
    bindM (readW (\<lambda>w. getBcmPortId (bcmPorts w bcmPort))) (\<lambda>port.
    bindM (switchControlPortSet P port bcmSwitchArpRequestToCpu enable) (\<lambda>u.
    bindM (switchControlPortSet P port bcmSwitchArpReplyToCpu enable) (\<lambda>u.
    bindM (switchControlPortSet P port bcmSwitchDhcpPktDrop enable) (\<lambda>u.
    bindM (switchControlPortSet P port bcmSwitchDhcpPktToCpu enable) (\<lambda>u.
    switchControlPortSet P port bcmSwitchNdPktToCpu enable)))))"

text \<open>\<^verbatim>\<open>setActiveLanesWithFlexPortApi\<close>, lines 448-516.\<close>

definition kBcmL2DeleteStatic :: int where
  "kBcmL2DeleteStatic = 1"

definition kBcmL2DeletePending :: int where
  "kBcmL2DeletePending = 2"

definition l2_addr_delete_by_port :: "Platform \<Rightarrow> bcm_port_t \<Rightarrow> int \<Rightarrow> unit M" where
  "l2_addr_delete_by_port P port flags =
    bindM (sdk P (L2AddrDeleteByPort port flags))
      (\<lambda>rv. bcmCheckError rv (L2AddrDeleteByPort port flags))"

definition setActiveLanesWithFlexPortApi :: "Platform \<Rightarrow> Port list \<Rightarrow> LaneMode \<Rightarrow> unit M" where
  "setActiveLanesWithFlexPortApi P ports desiredLaneMode =
    bindM (readW allPorts) (\<lambda>members.
    bindM (forM (\<lambda>port.
        bindM (readW (\<lambda>w. getBcmPortId (bcmPorts w port))) (\<lambda>bcmPortId.
        bindM (l2_addr_delete_by_port P bcmPortId kBcmL2DeleteStatic) (\<lambda>u.
        bindM (l2_addr_delete_by_port P bcmPortId kBcmL2DeletePending) (\<lambda>u.
        setPortSpecificControls P port False)))) members) (\<lambda>u.
    bindM (readW allPorts) (\<lambda>members.
    bindM (removePorts P members) (\<lambda>u.
    bindM (addPorts P desiredLaneMode ports) (\<lambda>added.
    bindM (program P) (\<lambda>u.
    bindM (readW (\<lambda>w. getPortID (bcmPorts w (controllingPort w)))) (\<lambda>controllingPortID.
    bindM (readW allPorts) (\<lambda>members.
    bindM (forM (\<lambda>port.
        bindM (readW (\<lambda>w. getPortID (bcmPorts w port))) removeBcmPort) members) (\<lambda>u.
    bindM (mapM (\<lambda>port.
        bindM (addBcmPort P (getID port)) (\<lambda>u. getBcmPort (getID port))) added) (\<lambda>newPorts.
    bindM (getBcmPort controllingPortID) (\<lambda>handle.
    bindM (modifyW (\<lambda>w. w\<lparr>controllingPort := handle\<rparr>)) (\<lambda>u.
    bindM (modifyW (\<lambda>w. w\<lparr>allPorts := newPorts\<rparr>)) (\<lambda>u.
    bindM (readW allPorts) (\<lambda>members.
    bindM (forM registerInPortGroup members) (\<lambda>u.
    bindM (readW allPorts) (\<lambda>members.
    bindM (forM (\<lambda>port. setPortSpecificControls P port True) members) (\<lambda>u.
    modifyW (\<lambda>w. w\<lparr>laneMode := desiredLaneMode\<rparr>))))))))))))))))))"

text \<open>\<^verbatim>\<open>setActiveLanes\<close>, lines 397-446.\<close>

definition setActiveLanes :: "Platform \<Rightarrow> Port list \<Rightarrow> LaneMode \<Rightarrow> unit M" where
  "setActiveLanes P ports desiredLaneMode =
    bindM (readW (\<lambda>w. getPortID (bcmPorts w (controllingPort w)))) (\<lambda>controllingPortID.
    if shouldUsePortResourceAPIs P controllingPortID then
      (if \<not> supportsAddRemovePort P
       then throwM (UnsupportedPlatformOperation controllingPortID)
       else setActiveLanesWithFlexPortApi P ports desiredLaneMode)
    else
      bindM (readW (\<lambda>w. getBcmPortId (bcmPorts w (controllingPort w)))) (\<lambda>basePort.
      bindM (readW laneMode) (\<lambda>current.
      bindM (if (current = SINGLE \<and> desiredLaneMode = DUAL)
                \<or> (current = DUAL \<and> desiredLaneMode = SINGLE)
             then setLanesControl P basePort 4
             else returnM ()) (\<lambda>u.
      bindM (setLanesControl P basePort desiredLaneMode) (\<lambda>u.
      modifyW (\<lambda>w. w\<lparr>laneMode := desiredLaneMode\<rparr>))))))"

text \<open>\<^verbatim>\<open>reconfigureLaneMode\<close>, lines 349-381.\<close>

definition reconfigureLaneMode :: "Platform \<Rightarrow> Port list \<Rightarrow> Port list \<Rightarrow> LaneMode \<Rightarrow> unit M" where
  "reconfigureLaneMode P oldPorts newPorts newLaneMode =
    bindM (readW allPorts) (\<lambda>members.
    bindM (forM (\<lambda>bcmPort.
        bindM (readW (\<lambda>w. getPortID (bcmPorts w bcmPort))) (\<lambda>ident.
        bindM (liftE (getSwPort oldPorts ident)) (\<lambda>swPort.
        bindM (disableLinkscan P bcmPort) (\<lambda>u.
        disable P bcmPort swPort)))) members) (\<lambda>u.
    bindM (setActiveLanes P newPorts newLaneMode) (\<lambda>u.
    forM (\<lambda>swPort.
        bindM (getBcmPort (getID swPort)) (\<lambda>bcmPort.
        if isEnabled swPort then enableLinkscan P bcmPort else returnM ())) newPorts)))"

text \<open>\<^verbatim>\<open>reconfigureIfNeeded\<close>, lines 258-293.\<close>

definition reconfigureIfNeeded :: "Platform \<Rightarrow> SwitchState \<Rightarrow> SwitchState \<Rightarrow> unit M" where
  "reconfigureIfNeeded P oldState newState =
    bindM (getSwPorts P oldState) (\<lambda>oldPorts.
    bindM (getSwPorts P newState) (\<lambda>newPorts.
    bindM (case supportedProfiles_ref P of
             Some supportedProfiles \<Rightarrow>
               liftE (calculateDesiredLaneModeFromConfig newPorts supportedProfiles)
           | None \<Rightarrow>
               bindM (readW (\<lambda>w. supportedLaneSpeeds P (getPortID (bcmPorts w (controllingPort w)))))
                 (\<lambda>laneSpeeds. liftE (calculateDesiredLaneMode newPorts laneSpeeds))) (\<lambda>desiredLaneMode.
    bindM (readW laneMode) (\<lambda>current.
    bindM (if desiredLaneMode \<noteq> current
           then reconfigureLaneMode P oldPorts newPorts desiredLaneMode
           else returnM ()) (\<lambda>u.
    bindM (readW allPorts) (\<lambda>members.
    forM (\<lambda>port.
        bindM (readW (\<lambda>w. getPortID (bcmPorts w port))) (\<lambda>ident.
        case getSwPortIf oldPorts ident of
          None \<Rightarrow> returnM ()
        | Some oldPort \<Rightarrow>
            (case getSwPortIf newPorts ident of
               None \<Rightarrow> returnM ()
             | Some newPort \<Rightarrow>
                 if getSpeed oldPort \<noteq> getSpeed newPort
                 then linkSpeedChanged port (getSpeed newPort)
                 else returnM ()))) members))))))"

subsection \<open>Vocabulary of the properties\<close>

text \<open>
  The lane-mode aggregation that \<^verbatim>\<open>validConfiguration\<close> and \<^verbatim>\<open>reconfigureIfNeeded\<close>
  both run, as the spec describes it: the profile path when the platform has a
  supported-profiles table, else the speed path over the controlling port's
  lane speeds.
\<close>

definition aggregateDesiredLaneMode :: "Platform \<Rightarrow> Port list \<Rightarrow> World \<Rightarrow> FbossError + LaneMode" where
  "aggregateDesiredLaneMode P ports w =
    (case supportedProfiles_ref P of
       Some supportedProfiles \<Rightarrow> calculateDesiredLaneModeFromConfig ports supportedProfiles
     | None \<Rightarrow> calculateDesiredLaneMode ports
         (supportedLaneSpeeds P (getPortID (bcmPorts w (controllingPort w)))))"



text \<open>
  The five per-port traps of the spec, the calls that set them on a port, and
  the calls that purge a port before its removal (both kinds of forwarding
  entries, then the traps cleared).
\<close>

definition perPortTraps :: "SwitchControl list" where
  "perPortTraps = [bcmSwitchArpRequestToCpu, bcmSwitchArpReplyToCpu, bcmSwitchDhcpPktDrop,
                   bcmSwitchDhcpPktToCpu, bcmSwitchNdPktToCpu]"

definition trapCalls :: "bcm_port_t \<Rightarrow> bool \<Rightarrow> HwCall list" where
  "trapCalls port enable = map (\<lambda>control. SwitchControlPortSet port control enable) perPortTraps"

definition purgeCalls :: "bcm_port_t \<Rightarrow> HwCall list" where
  "purgeCalls port =
    [L2AddrDeleteByPort port kBcmL2DeleteStatic, L2AddrDeleteByPort port kBcmL2DeletePending]
    @ trapCalls port False"

text \<open>
  A computation stays within a relation when every run relates the state it
  starts from to the state it leaves, whatever the outcome. For a reflexive
  and transitive relation this is preserved by sequencing and by loops.
\<close>

definition stepsWithin :: "(World \<Rightarrow> World \<Rightarrow> bool) \<Rightarrow> 'a M \<Rightarrow> bool" where
  "stepsWithin R m = (\<forall>w. R w (snd (m w)))"

definition isPreorder :: "(World \<Rightarrow> World \<Rightarrow> bool) \<Rightarrow> bool" where
  "isPreorder R = ((\<forall>w. R w w) \<and> (\<forall>a b c. R a b \<longrightarrow> R b c \<longrightarrow> R a c))"



subsection \<open>Concrete platforms, groups and switch states\<close>

text \<open>
  A legacy platform (no profile table, no resource API) whose controlling
  port supports 10G and 25G lanes and whose device accepts every call; the
  same platform with the resource API switched on but no add/remove support;
  and a platform that uses the resource API with a profile table.
\<close>

definition legacyPlatform :: Platform where
  "legacyPlatform =
    \<lparr>getPlatformPorts = [],
     getPlatformPortsByControllingPort = (\<lambda>ident. []),
     supportedProfiles_ref = None,
     supportsAddRemovePort = False,
     shouldUsePortResourceAPIs = (\<lambda>ident. False),
     supportsSpeed = (\<lambda>ident speed. True),
     supportedLaneSpeeds = (\<lambda>ident. [10000, 25000]),
     addedPorts = (\<lambda>mode ports. ports),
     logicalPort = (\<lambda>ident. int ident),
     sdk_rv = (\<lambda>history c. 0),
     sdk_lanes = (\<lambda>history port. 4)\<rparr>"

text \<open>
  The legacy platform with a device that takes a lane count of 4 at any time
  and a lane count of 1 or 2 only right after a write of 4, and refuses every
  other lane count: a direct change between one and two lanes is refused.
\<close>

definition strictLanesPlatform :: Platform where
  "strictLanesPlatform = legacyPlatform\<lparr>sdk_rv := (\<lambda>history c.
     (case c of
        PortControlSetLanes port lanes \<Rightarrow>
          (if lanes = 4 then 0
           else if (lanes = 1 \<or> lanes = 2) \<and> history \<noteq> []
                   \<and> last history = PortControlSetLanes port 4 then 0
           else - 1)
      | _ \<Rightarrow> 0))\<rparr>"

text \<open>The legacy platform with a zero among the controlling port's lane speeds.\<close>

definition zeroLaneSpeedPlatform :: Platform where
  "zeroLaneSpeedPlatform = legacyPlatform\<lparr>supportedLaneSpeeds := (\<lambda>ident. [0, 10000])\<rparr>"

definition noAddRemovePlatform :: Platform where
  "noAddRemovePlatform = legacyPlatform\<lparr>shouldUsePortResourceAPIs := (\<lambda>ident. True)\<rparr>"

definition flexPlatform :: Platform where
  "flexPlatform = legacyPlatform\<lparr>
     getPlatformPorts := [1, 2, 3, 4],
     getPlatformPortsByControllingPort := (\<lambda>ident. if ident = 1 then [1, 2, 3, 4] else []),
     supportedProfiles_ref := Some [23 \<mapsto> 4, 11 \<mapsto> 1],
     supportsAddRemovePort := True,
     shouldUsePortResourceAPIs := (\<lambda>ident. True)\<rparr>"

text \<open>
  A group of four lanes with controlling port 1 and members 1 to 4, recorded
  in single-lane mode, and the same group recorded in quad-lane mode.
\<close>

definition fourLanes :: World where
  "fourLanes =
    \<lparr>bcmPorts = (\<lambda>h. \<lparr>getPortID = h, getBcmPortId = int h, portGroup = Some 0\<rparr>),
     nextHandle = 100,
     portTable = [1 \<mapsto> 1, 2 \<mapsto> 2, 3 \<mapsto> 3, 4 \<mapsto> 4],
     trace = [],
     thisGroup = 0,
     controllingPort = 1,
     allPorts = [1, 2, 3, 4],
     laneMode = SINGLE\<rparr>"

text \<open>
  The same group on a device where ports 2 and 3 are numbered against the
  lanes: port 2 is logical port 3 and port 3 is logical port 2.
\<close>

definition crossedLanes :: World where
  "crossedLanes = fourLanes\<lparr>bcmPorts := (\<lambda>h.
     \<lparr>getPortID = h, getBcmPortId = (if h = 2 then 3 else if h = 3 then 2 else int h),
      portGroup = Some 0\<rparr>)\<rparr>"

definition quadLanes :: World where
  "quadLanes = fourLanes\<lparr>laneMode := QUAD\<rparr>"

definition speedPort :: "PortID \<Rightarrow> bool \<Rightarrow> PortSpeed \<Rightarrow> Port" where
  "speedPort ident enabled speed =
    \<lparr>getID = ident, getName = ''eth'', isEnabled = enabled, getSpeed = speed, getProfileID = 0\<rparr>"

definition profilePort :: "PortID \<Rightarrow> bool \<Rightarrow> PortSpeed \<Rightarrow> PortProfileID \<Rightarrow> Port" where
  "profilePort ident enabled speed profile =
    \<lparr>getID = ident, getName = ''eth'', isEnabled = enabled, getSpeed = speed, getProfileID = profile\<rparr>"

definition fourByTen :: SwitchState where
  "fourByTen = [1 \<mapsto> speedPort 1 True 10000, 2 \<mapsto> speedPort 2 True 10000,
                3 \<mapsto> speedPort 3 True 10000, 4 \<mapsto> speedPort 4 True 10000]"

definition fortyOnLaneZero :: SwitchState where
  "fortyOnLaneZero = [1 \<mapsto> speedPort 1 True 40000, 2 \<mapsto> speedPort 2 False 10000,
                3 \<mapsto> speedPort 3 False 10000, 4 \<mapsto> speedPort 4 False 10000]"

definition fortyOnLaneOne :: SwitchState where
  "fortyOnLaneOne = [1 \<mapsto> speedPort 1 True 10000, 2 \<mapsto> speedPort 2 True 40000,
                3 \<mapsto> speedPort 3 False 10000, 4 \<mapsto> speedPort 4 False 10000]"

definition fourByTwentyFive :: SwitchState where
  "fourByTwentyFive = [1 \<mapsto> profilePort 1 True 25000 11, 2 \<mapsto> profilePort 2 True 25000 11,
                3 \<mapsto> profilePort 3 True 25000 11, 4 \<mapsto> profilePort 4 True 25000 11]"

definition oneByHundred :: SwitchState where
  "oneByHundred = [1 \<mapsto> profilePort 1 True 100000 23]"

text \<open>
  The configuration the SDK calls tri_012: 10G on lanes 0 and 1, 20G on lane 2.
\<close>

definition tri_012 :: "Port list" where
  "tri_012 =
    [speedPort 1 True 10000, speedPort 2 True 10000, speedPort 3 True 20000, speedPort 4 False 10000]"

text \<open>A profile table with a profile that declares three lanes.\<close>

definition threeLaneProfile :: "PortProfileID \<rightharpoonup> int" where
  "threeLaneProfile = [7 \<mapsto> 3]"

section \<open>Properties\<close>

subsection \<open>The required lane mode of a speed\<close>

lemma neededLaneModeForSpeed_loop_skip:
  "\<forall>e\<in>set pre. e \<noteq> 0 \<and> \<not> (speed = INT_MIN \<and> e = - 1)
      \<and> (speed smod e \<noteq> 0 \<or> speed sdiv e < 1 \<or> 4 < speed sdiv e) \<Longrightarrow>
   neededLaneModeForSpeed_loop speed (pre @ rest) = neededLaneModeForSpeed_loop speed rest"
  by (induction pre) (auto simp: std_div_def Let_def)

lemma neededLaneModeForSpeed_loop_none:
  "\<forall>e\<in>set ls. e \<noteq> 0 \<and> \<not> (speed = INT_MIN \<and> e = - 1)
      \<and> (speed smod e \<noteq> 0 \<or> speed sdiv e < 1 \<or> 4 < speed sdiv e) \<Longrightarrow>
   neededLaneModeForSpeed_loop speed ls = Inl (UnsupportedSpeed speed)"
  using neededLaneModeForSpeed_loop_skip [of ls speed "[]"] by simp

text \<open>
  C1. The claim fails where the scan reaches a lane speed of zero: for the
  speed 10000 and the lane speeds 0 alone, no candidate divides the speed
  evenly, yet the call does not fail with UnsupportedSpeed; with the lane
  speeds 0 and 10000 the second candidate has quotient 1, yet the call does not
  yield SINGLE. In both calls \<^verbatim>\<open>std::div\<close> divides by zero, which is undefined.
\<close>

theorem neededLaneModeForSpeed_spec_counterexample:
  "neededLaneModeForSpeed 10000 [0] = Inl DivideByZero
   \<and> neededLaneModeForSpeed 10000 [0] \<noteq> Inl (UnsupportedSpeed 10000)
   \<and> neededLaneModeForSpeed 10000 [0, 10000] = Inl DivideByZero
   \<and> neededLaneModeForSpeed 10000 [0, 10000] \<noteq> Inr SINGLE"
  by (simp add: neededLaneModeForSpeed_def std_div_def DEFAULT_def)

text \<open>
  C1, amended. The DEFAULT speed fails with InvalidConfig whatever the lane
  speeds are. For any other speed the candidates are scanned in order, and a
  candidate is passed over when its division is defined (the candidate is not
  zero, and is not -1 against the speed \<open>INT_MIN\<close>) and leaves a remainder or a
  quotient outside 1 to 4. When every candidate before \<open>c\<close> is passed over:
  if \<open>c\<close> divides the speed evenly, quotient 1 gives SINGLE, 2 gives DUAL and
  3 or 4 give QUAD; if \<open>c\<close> is zero, or -1 against the speed \<open>INT_MIN\<close>, the
  division is undefined and the call yields neither a mode nor an error of the
  taxonomy. When every candidate is passed over (in particular when the
  divisions are defined and none is even) the call fails with UnsupportedSpeed.
\<close>

theorem neededLaneModeForSpeed_spec:
  "(speed = DEFAULT \<longrightarrow> neededLaneModeForSpeed speed laneSpeeds = Inl InvalidConfig)
   \<and> (speed \<noteq> DEFAULT \<longrightarrow>
        (\<forall>pre c post.
           laneSpeeds = pre @ c # post
           \<and> (\<forall>e\<in>set pre. e \<noteq> 0 \<and> \<not> (speed = INT_MIN \<and> e = - 1)
                 \<and> (speed smod e \<noteq> 0 \<or> speed sdiv e < 1 \<or> 4 < speed sdiv e)) \<longrightarrow>
             (c = 0 \<longrightarrow> neededLaneModeForSpeed speed laneSpeeds = Inl DivideByZero)
           \<and> (speed = INT_MIN \<and> c = - 1 \<longrightarrow>
                 neededLaneModeForSpeed speed laneSpeeds = Inl DivideOverflow)
           \<and> (c \<noteq> 0 \<and> \<not> (speed = INT_MIN \<and> c = - 1) \<and> speed smod c = 0 \<longrightarrow>
                 (speed sdiv c = 1 \<longrightarrow> neededLaneModeForSpeed speed laneSpeeds = Inr SINGLE)
               \<and> (speed sdiv c = 2 \<longrightarrow> neededLaneModeForSpeed speed laneSpeeds = Inr DUAL)
               \<and> (2 < speed sdiv c \<and> speed sdiv c \<le> 4 \<longrightarrow>
                     neededLaneModeForSpeed speed laneSpeeds = Inr QUAD)))
        \<and> ((\<forall>e\<in>set laneSpeeds. e \<noteq> 0 \<and> \<not> (speed = INT_MIN \<and> e = - 1)
                 \<and> (speed smod e \<noteq> 0 \<or> speed sdiv e < 1 \<or> 4 < speed sdiv e)) \<longrightarrow>
             neededLaneModeForSpeed speed laneSpeeds = Inl (UnsupportedSpeed speed)))"
proof (intro conjI impI allI)
  assume "speed = DEFAULT"
  then show "neededLaneModeForSpeed speed laneSpeeds = Inl InvalidConfig"
    by (simp add: neededLaneModeForSpeed_def)
next
  fix pre c post
  assume ok: "speed \<noteq> DEFAULT"
    and split: "laneSpeeds = pre @ c # post
      \<and> (\<forall>e\<in>set pre. e \<noteq> 0 \<and> \<not> (speed = INT_MIN \<and> e = - 1)
            \<and> (speed smod e \<noteq> 0 \<or> speed sdiv e < 1 \<or> 4 < speed sdiv e))"
  then have run: "neededLaneModeForSpeed speed laneSpeeds
      = neededLaneModeForSpeed_loop speed (c # post)"
    by (simp add: neededLaneModeForSpeed_def neededLaneModeForSpeed_loop_skip)
  { assume "c = 0"
    with run show "neededLaneModeForSpeed speed laneSpeeds = Inl DivideByZero"
      by (simp add: std_div_def) }
  { assume "speed = INT_MIN \<and> c = - 1"
    with run show "neededLaneModeForSpeed speed laneSpeeds = Inl DivideOverflow"
      by (simp add: std_div_def) }
  { assume even: "c \<noteq> 0 \<and> \<not> (speed = INT_MIN \<and> c = - 1) \<and> speed smod c = 0"
    { assume "speed sdiv c = 1"
      with run even show "neededLaneModeForSpeed speed laneSpeeds = Inr SINGLE"
        by (auto simp: std_div_def) }
    { assume "speed sdiv c = 2"
      with run even show "neededLaneModeForSpeed speed laneSpeeds = Inr DUAL"
        by (auto simp: std_div_def) }
    { assume "2 < speed sdiv c \<and> speed sdiv c \<le> 4"
      with run even show "neededLaneModeForSpeed speed laneSpeeds = Inr QUAD"
        by (auto simp: std_div_def) } }
next
  assume "speed \<noteq> DEFAULT"
    and "\<forall>e\<in>set laneSpeeds. e \<noteq> 0 \<and> \<not> (speed = INT_MIN \<and> e = - 1)
            \<and> (speed smod e \<noteq> 0 \<or> speed sdiv e < 1 \<or> 4 < speed sdiv e)"
  then show "neededLaneModeForSpeed speed laneSpeeds = Inl (UnsupportedSpeed speed)"
    by (simp add: neededLaneModeForSpeed_def neededLaneModeForSpeed_loop_none)
qed

theorem neededLaneModeForSpeed_spec_witness:
  "neededLaneModeForSpeed 50000 [10000, 25000] = Inr DUAL
   \<and> neededLaneModeForSpeed 40000 [10000, 25000] = Inr QUAD
   \<and> neededLaneModeForSpeed 25000 [10000, 25000] = Inr SINGLE
   \<and> neededLaneModeForSpeed 10000 [10000, 0] = Inr SINGLE
   \<and> neededLaneModeForSpeed DEFAULT [10000, 25000] = Inl InvalidConfig
   \<and> neededLaneModeForSpeed 100000 [10000, 20000] = Inl (UnsupportedSpeed 100000)
   \<and> neededLaneModeForSpeed 25000 [10000, 0, 25000] = Inl DivideByZero
   \<and> neededLaneModeForSpeed INT_MIN [10000, - 1] = Inl DivideOverflow"
proof -
  have d: "(50000::int) \<noteq> DEFAULT" "(40000::int) \<noteq> DEFAULT" "(25000::int) \<noteq> DEFAULT"
    "(10000::int) \<noteq> DEFAULT" "(100000::int) \<noteq> DEFAULT" "INT_MIN \<noteq> DEFAULT"
    by (simp_all add: DEFAULT_def INT_MIN_def)
  have a: "neededLaneModeForSpeed 50000 [10000, 25000] = Inr DUAL"
    using neededLaneModeForSpeed_spec [of 50000 "[10000, 25000]", THEN conjunct2,
        THEN mp, OF d(1), THEN conjunct1, rule_format, of "[10000]" 25000 "[]",
        THEN conjunct2, THEN conjunct2]
    by (simp add: INT_MIN_def)
  have b: "neededLaneModeForSpeed 40000 [10000, 25000] = Inr QUAD"
    using neededLaneModeForSpeed_spec [of 40000 "[10000, 25000]", THEN conjunct2,
        THEN mp, OF d(2), THEN conjunct1, rule_format, of "[]" 10000 "[25000]",
        THEN conjunct2, THEN conjunct2]
    by (simp add: INT_MIN_def)
  have c: "neededLaneModeForSpeed 25000 [10000, 25000] = Inr SINGLE"
    using neededLaneModeForSpeed_spec [of 25000 "[10000, 25000]", THEN conjunct2,
        THEN mp, OF d(3), THEN conjunct1, rule_format, of "[10000]" 25000 "[]",
        THEN conjunct2, THEN conjunct2]
    by (simp add: INT_MIN_def)
  have c': "neededLaneModeForSpeed 10000 [10000, 0] = Inr SINGLE"
    using neededLaneModeForSpeed_spec [of 10000 "[10000, 0]", THEN conjunct2,
        THEN mp, OF d(4), THEN conjunct1, rule_format, of "[]" 10000 "[0]",
        THEN conjunct2, THEN conjunct2]
    by (simp add: INT_MIN_def)
  have e: "neededLaneModeForSpeed DEFAULT [10000, 25000] = Inl InvalidConfig"
    using neededLaneModeForSpeed_spec [of DEFAULT "[10000, 25000]"] by simp
  have f: "neededLaneModeForSpeed 100000 [10000, 20000] = Inl (UnsupportedSpeed 100000)"
    using neededLaneModeForSpeed_spec [of 100000 "[10000, 20000]", THEN conjunct2,
        THEN mp, OF d(5), THEN conjunct2]
    by (simp add: INT_MIN_def)
  have g: "neededLaneModeForSpeed 25000 [10000, 0, 25000] = Inl DivideByZero"
    using neededLaneModeForSpeed_spec [of 25000 "[10000, 0, 25000]", THEN conjunct2,
        THEN mp, OF d(3), THEN conjunct1, rule_format, of "[10000]" 0 "[25000]",
        THEN conjunct1]
    by (simp add: INT_MIN_def)
  have h: "neededLaneModeForSpeed INT_MIN [10000, - 1] = Inl DivideOverflow"
    using neededLaneModeForSpeed_spec [of INT_MIN "[10000, - 1]", THEN conjunct2,
        THEN mp, OF d(6), THEN conjunct1, rule_format, of "[10000]" "- 1" "[]",
        THEN conjunct2, THEN conjunct1]
    by (simp add: INT_MIN_def)
  from a b c c' e f g h show ?thesis by simp
qed

subsection \<open>Running a computation\<close>

lemma returnM_apply: "returnM x w = (Inr x, w)"
  by (simp add: returnM_def)

lemma throwM_apply: "throwM ex w = (Inl ex, w)"
  by (simp add: throwM_def)

lemma liftE_apply: "liftE r w = (r, w)"
  by (simp add: liftE_def)

lemma readW_apply: "readW g w = (Inr (g w), w)"
  by (simp add: readW_def)

lemma modifyW_apply: "modifyW h w = (Inr (), h w)"
  by (simp add: modifyW_def)

lemma bindM_apply:
  "bindM m f w = (case m w of (Inl ex, w') \<Rightarrow> (Inl ex, w') | (Inr x, w') \<Rightarrow> f x w')"
  by (simp add: bindM_def)

lemma sdk_apply: "sdk P c w = (Inr (sdk_rv P (trace w) c), w\<lparr>trace := trace w @ [c]\<rparr>)"
  by (simp add: sdk_def)

lemmas M_apply = returnM_apply throwM_apply liftE_apply readW_apply modifyW_apply bindM_apply
  sdk_apply

lemma bindM_Inr:
  assumes "bindM m f w = (Inr y, w')"
  obtains x w1 where "m w = (Inr x, w1)" "f x w1 = (Inr y, w')"
  using assms by (auto simp: M_apply split: prod.splits sum.splits)

lemma forM_Cons_Inr: "body x w = (Inr (), w1) \<Longrightarrow> forM body (x # xs) w = forM body xs w1"
  by simp

lemma forM_Cons_InrE:
  assumes "forM body (x # xs) w = (Inr u, w')"
  obtains w1 where "body x w = (Inr (), w1)" "forM body xs w1 = (Inr u, w')"
  using assms by (auto split: prod.splits sum.splits)

lemma mapM_Cons_Inr:
  "body x w = (Inr y, w1) \<Longrightarrow> mapM body xs w1 = (Inr ys, w2) \<Longrightarrow>
   mapM body (x # xs) w = (Inr (y # ys), w2)"
  by simp

lemmas fixture_defs = legacyPlatform_def noAddRemovePlatform_def flexPlatform_def fourLanes_def
  strictLanesPlatform_def zeroLaneSpeedPlatform_def crossedLanes_def
  quadLanes_def speedPort_def profilePort_def fourByTen_def fortyOnLaneZero_def
  fortyOnLaneOne_def fourByTwentyFive_def oneByHundred_def

lemmas calc_defs = calculateDesiredLaneMode_def neededLaneModeForSpeed_def checkLaneModeisValid_def
  std_div_def INT_MIN_def
  calculateDesiredLaneModeFromConfig_def numLanesToLaneMode_def static_cast_LaneMode_def
  to_uint8_def DEFAULT_def getSwPorts_def getSwitchStatePort_def aggregateDesiredLaneMode_def

subsection \<open>Placement of enabled members\<close>

text \<open>
  C3. The speed-based aggregation on the tri_012 configuration (10G enabled on
  lanes 0 and 1, 20G enabled on lane 2, lane 3 disabled, lane speeds 10G and
  25G): the member on lane 2 needs DUAL and the aggregation returns DUAL, with
  no placement failure, although the member on lane 1 is enabled. The member
  on lane 1 was checked against the running mode of that moment, SINGLE, and
  is not looked at again when lane 2 raises the mode.
\<close>

theorem calculateDesiredLaneMode_tri_012:
  "calculateDesiredLaneMode tri_012 [10000, 25000] = Inr DUAL
   \<and> isEnabled (tri_012 ! 1)
   \<and> neededLaneModeForSpeed (getSpeed (tri_012 ! 2)) [10000, 25000] = Inr DUAL
   \<and> checkLaneModeisValid 1 DUAL = Inl (InvalidPlacement 1 DUAL)"
  by (simp add: tri_012_def speedPort_def calculateDesiredLaneMode_def neededLaneModeForSpeed_def
      std_div_def INT_MIN_def checkLaneModeisValid_def DEFAULT_def)

text \<open>
  What the placement check does establish: a member is checked against the
  running mode as raised by that member, so that a run that returns QUAD has
  no enabled member off lane 0; a disabled member is skipped.
\<close>

lemma calculateDesiredLaneMode_loop_append:
  "calculateDesiredLaneMode_loop ls lane mode (pre @ rest) =
    (case calculateDesiredLaneMode_loop ls lane mode pre of
       Inl ex \<Rightarrow> Inl ex
     | Inr mode' \<Rightarrow> calculateDesiredLaneMode_loop ls (lane + length pre) mode' rest)"
  by (induction pre arbitrary: lane mode) (auto simp: Let_def split: sum.splits)

lemma calculateDesiredLaneMode_loop_disabled:
  "\<forall>port\<in>set ports. \<not> isEnabled port \<Longrightarrow>
   calculateDesiredLaneMode_loop ls lane mode ports = Inr mode"
  by (induction ports arbitrary: lane) auto

lemma calculateDesiredLaneMode_loop_quad:
  "calculateDesiredLaneMode_loop ls lane mode ports = Inr QUAD \<Longrightarrow>
   i < length ports \<Longrightarrow> isEnabled (ports ! i) \<Longrightarrow> lane + i = 0"
proof (induction ports arbitrary: lane mode i)
  case Nil
  then show ?case by simp
next
  case (Cons port ports)
  show ?case
  proof (cases "isEnabled port")
    case False
    with Cons.prems have tail: "calculateDesiredLaneMode_loop ls (lane + 1) mode ports = Inr QUAD"
      by simp
    from False Cons.prems obtain j where j: "i = Suc j" "j < length ports" "isEnabled (ports ! j)"
      by (cases i) auto
    from Cons.IH [OF tail j(2,3)] show ?thesis by simp
  next
    case True
    with Cons.prems obtain needed where
      n: "neededLaneModeForSpeed (getSpeed port) ls = Inr needed"
      and c: "checkLaneModeisValid lane (if needed > mode then needed else mode) = Inr ()"
      and tail: "calculateDesiredLaneMode_loop ls (lane + 1)
          (if needed > mode then needed else mode) ports = Inr QUAD"
      by (auto simp: Let_def split: sum.splits)
    have none: "\<forall>p\<in>set ports. \<not> isEnabled p"
    proof
      fix p assume "p \<in> set ports"
      then obtain j where "j < length ports" "ports ! j = p" by (auto simp: in_set_conv_nth)
      with Cons.IH [OF tail, of j] show "\<not> isEnabled p" by auto
    qed
    with tail have "(if needed > mode then needed else mode) = QUAD"
      by (simp add: calculateDesiredLaneMode_loop_disabled)
    with c have "lane = 0" by (simp add: checkLaneModeisValid_def split: if_splits)
    moreover from none Cons.prems have "i = 0" by (cases i) auto
    ultimately show ?thesis by simp
  qed
qed

lemma calculateDesiredLaneMode_quad_only_lane_0:
  "calculateDesiredLaneMode ports ls = Inr QUAD \<Longrightarrow>
   i < length ports \<Longrightarrow> isEnabled (ports ! i) \<Longrightarrow> i = 0"
  unfolding calculateDesiredLaneMode_def
  by (drule calculateDesiredLaneMode_loop_quad [where i = i]) simp_all

lemma calculateDesiredLaneMode_at_member:
  assumes lane: "lane < length ports" and enabled: "isEnabled (ports ! lane)"
    and before: "calculateDesiredLaneMode (take lane ports) ls = Inr before"
    and needed: "neededLaneModeForSpeed (getSpeed (ports ! lane)) ls = Inr needed"
  shows "(max before needed = QUAD \<and> lane \<noteq> 0 \<longrightarrow>
            calculateDesiredLaneMode ports ls = Inl (InvalidPlacement lane QUAD))
       \<and> (max before needed = DUAL \<and> lane \<noteq> 0 \<and> lane \<noteq> 2 \<longrightarrow>
            calculateDesiredLaneMode ports ls = Inl (InvalidPlacement lane DUAL))
       \<and> (max before needed = SINGLE \<longrightarrow>
            calculateDesiredLaneMode (take (Suc lane) ports) ls = Inr SINGLE)"
proof -
  from lane have split: "ports = take lane ports @ ports ! lane # drop (Suc lane) ports"
    by (simp add: id_take_nth_drop)
  have whole: "calculateDesiredLaneMode ports ls =
      calculateDesiredLaneMode_loop ls lane before (ports ! lane # drop (Suc lane) ports)"
    using before lane
    by (subst split)
      (simp add: calculateDesiredLaneMode_def calculateDesiredLaneMode_loop_append min_def)
  have upto: "calculateDesiredLaneMode (take (Suc lane) ports) ls =
      calculateDesiredLaneMode_loop ls lane before [ports ! lane]"
    using before lane
    by (simp add: take_Suc_conv_app_nth calculateDesiredLaneMode_def
        calculateDesiredLaneMode_loop_append min_def)
  have m: "(if needed > before then needed else before) = max before needed"
    by (simp add: max_def)
  show ?thesis
    using enabled needed
    unfolding whole upto
    by (auto simp: Let_def m checkLaneModeisValid_def simp del: One_nat_def)
qed

lemma calculateDesiredLaneMode_skips_disabled:
  assumes "lane < length ports" and "\<not> isEnabled (ports ! lane)"
    and "calculateDesiredLaneMode (take lane ports) ls = Inr before"
  shows "calculateDesiredLaneMode (take (Suc lane) ports) ls = Inr before"
  using assms
  by (simp add: take_Suc_conv_app_nth calculateDesiredLaneMode_def
      calculateDesiredLaneMode_loop_append min_def)

subsection \<open>The lane mode of a profile\<close>

text \<open>
  C4. A lane count of 3 is turned into the lane mode with number 3 and no
  failure: \<^verbatim>\<open>numLanesToLaneMode\<close> returns its argument for every lane count, so a
  port whose profile declares three lanes aggregates to lane mode 3 instead of
  failing with InvalidLaneCount.
\<close>

theorem numLanesToLaneMode_three:
  "numLanesToLaneMode 3 = Inr 3
   \<and> calculateDesiredLaneModeFromConfig [profilePort 1 True 100000 7] threeLaneProfile = Inr 3
   \<and> (\<forall>numLanes. numLanesToLaneMode numLanes = Inr numLanes)"
  by (simp add: threeLaneProfile_def profilePort_def calculateDesiredLaneModeFromConfig_def
      numLanesToLaneMode_def static_cast_LaneMode_def to_uint8_def)

text \<open>
  The other two cases of the profile path, for one enabled port: a profile
  that the table does not hold, and a profile of one, two or four lanes.
\<close>

lemma calculateDesiredLaneModeFromConfig_one_port:
  assumes "isEnabled port"
  shows "(supportedProfiles (getProfileID port) = None \<longrightarrow>
            calculateDesiredLaneModeFromConfig [port] supportedProfiles
              = Inl (UnknownProfile (getName port) (getProfileID port)))
       \<and> (\<forall>numLanes. supportedProfiles (getProfileID port) = Some numLanes
              \<and> (numLanes = 1 \<or> numLanes = 2 \<or> numLanes = 4) \<longrightarrow>
            calculateDesiredLaneModeFromConfig [port] supportedProfiles = Inr (nat numLanes))"
  using assms
  by (auto simp: calculateDesiredLaneModeFromConfig_def numLanesToLaneMode_def
      static_cast_LaneMode_def to_uint8_def)

subsection \<open>Validation\<close>

lemma neededLaneModeForSpeed_loop_defined:
  "0 \<notin> set ls \<Longrightarrow> - 1 \<notin> set ls \<Longrightarrow> neededLaneModeForSpeed_loop speed ls = Inl ex \<Longrightarrow>
   \<not> undefinedBehaviour ex"
  by (induction ls)
    (auto simp: std_div_def undefinedBehaviour_def Let_def split: if_splits)

lemma calculateDesiredLaneMode_loop_defined:
  "0 \<notin> set ls \<Longrightarrow> - 1 \<notin> set ls \<Longrightarrow> calculateDesiredLaneMode_loop ls lane mode ports = Inl ex \<Longrightarrow>
   \<not> undefinedBehaviour ex"
proof (induction ports arbitrary: lane mode)
  case Nil
  then show ?case by simp
next
  case (Cons port ports)
  from Cons.prems have "\<And>e. neededLaneModeForSpeed (getSpeed port) ls = Inl e \<Longrightarrow>
      \<not> undefinedBehaviour e"
    by (auto simp: neededLaneModeForSpeed_def undefinedBehaviour_def
        dest: neededLaneModeForSpeed_loop_defined split: if_splits)
  with Cons show ?case
    by (auto simp: Let_def checkLaneModeisValid_def undefinedBehaviour_def
        split: sum.splits if_splits)
qed

lemma calculateDesiredLaneModeFromConfig_loop_defined:
  "calculateDesiredLaneModeFromConfig_loop profiles mode ports = Inl ex \<Longrightarrow>
   \<not> undefinedBehaviour ex"
  by (induction ports arbitrary: mode)
    (auto simp: numLanesToLaneMode_def static_cast_LaneMode_def undefinedBehaviour_def
      split: option.splits if_splits)

lemma getSwPorts_bcm_defined:
  "getSwPorts_bcm P state bs = Inl ex \<Longrightarrow> \<not> undefinedBehaviour ex"
  by (induction bs)
    (auto simp: getSwitchStatePort_def undefinedBehaviour_def
      split: option.splits sum.splits if_splits)

lemma getSwPorts_frame: "snd (getSwPorts P state w) = w"
  by (simp add: getSwPorts_def)

lemma getSwPorts_defined:
  "fst (getSwPorts P state w) = Inl ex \<Longrightarrow> \<not> undefinedBehaviour ex"
  by (auto simp: getSwPorts_def dest: getSwPorts_bcm_defined split: if_splits)


lemma aggregateDesiredLaneMode_defined:
  assumes "supportedProfiles_ref P = None \<longrightarrow>
      0 \<notin> set (supportedLaneSpeeds P (getPortID (bcmPorts w (controllingPort w))))
      \<and> - 1 \<notin> set (supportedLaneSpeeds P (getPortID (bcmPorts w (controllingPort w))))"
    and "aggregateDesiredLaneMode P ports w = Inl ex"
  shows "\<not> undefinedBehaviour ex"
  using assms
  by (auto simp: aggregateDesiredLaneMode_def calculateDesiredLaneMode_def
      calculateDesiredLaneModeFromConfig_def
      dest: calculateDesiredLaneMode_loop_defined calculateDesiredLaneModeFromConfig_loop_defined
      split: option.splits)

lemma aggregate_run:
  assumes "(case supportedProfiles_ref P of
             Some supportedProfiles \<Rightarrow>
               liftE (calculateDesiredLaneModeFromConfig ports supportedProfiles)
           | None \<Rightarrow>
               bindM (readW (\<lambda>w. supportedLaneSpeeds P (getPortID (bcmPorts w (controllingPort w)))))
                 (\<lambda>laneSpeeds. liftE (calculateDesiredLaneMode ports laneSpeeds))) w = (r, w1)"
  shows "w1 = w \<and> r = aggregateDesiredLaneMode P ports w"
  using assms by (auto simp: aggregateDesiredLaneMode_def M_apply split: option.splits)

lemma validConfiguration_run:
  "validConfiguration P state w =
    (case fst (getSwPorts P state w) of
       Inl ex \<Rightarrow> (Inr False, w)
     | Inr ports \<Rightarrow>
         (case aggregateDesiredLaneMode P ports w of
            Inr mode \<Rightarrow> (Inr True, w)
          | Inl ex \<Rightarrow> if undefinedBehaviour ex then (Inl ex, w) else (Inr False, w)))"
proof -
  obtain r where g: "getSwPorts P state w = (r, w)"
    using getSwPorts_frame [of P state w] by (cases "getSwPorts P state w") simp
  show ?thesis
  proof (cases r)
    case (Inl ex)
    with g getSwPorts_defined [of P state w ex] have "\<not> undefinedBehaviour ex" by simp
    with g Inl show ?thesis
      by (simp add: validConfiguration_def tryCatch_def M_apply)
  next
    case (Inr ports)
    obtain a w1 where run: "(case supportedProfiles_ref P of
             Some supportedProfiles \<Rightarrow>
               liftE (calculateDesiredLaneModeFromConfig ports supportedProfiles)
           | None \<Rightarrow>
               bindM (readW (\<lambda>w. supportedLaneSpeeds P (getPortID (bcmPorts w (controllingPort w)))))
                 (\<lambda>laneSpeeds. liftE (calculateDesiredLaneMode ports laneSpeeds))) w = (a, w1)"
      by (cases "(case supportedProfiles_ref P of
             Some supportedProfiles \<Rightarrow>
               liftE (calculateDesiredLaneModeFromConfig ports supportedProfiles)
           | None \<Rightarrow>
               bindM (readW (\<lambda>w. supportedLaneSpeeds P (getPortID (bcmPorts w (controllingPort w)))))
                 (\<lambda>laneSpeeds. liftE (calculateDesiredLaneMode ports laneSpeeds))) w")
    then have w1: "w1 = w" and a: "a = aggregateDesiredLaneMode P ports w"
      by (auto dest: aggregate_run)
    from g Inr run show ?thesis
      unfolding w1 a validConfiguration_def tryCatch_def
      by (cases "aggregateDesiredLaneMode P ports w") (simp_all add: M_apply)
  qed
qed

text \<open>
  C5. The claim fails on the speed path when a lane speed of the controlling
  port is zero: for four enabled 10G ports and the lane speeds 0 and 10000,
  \<^verbatim>\<open>std::div\<close> divides by zero inside the aggregation, the \<^verbatim>\<open>catch\<close> does not
  turn this into false, and no boolean is returned.
\<close>

theorem validConfiguration_spec_counterexample:
  "validConfiguration zeroLaneSpeedPlatform fourByTen fourLanes = (Inl DivideByZero, fourLanes)
   \<and> (\<forall>b. validConfiguration zeroLaneSpeedPlatform fourByTen fourLanes \<noteq> (Inr b, fourLanes))"
  by (simp add: validConfiguration_run calc_defs fixture_defs undefinedBehaviour_def)

text \<open>
  C5, amended. \<^verbatim>\<open>validConfiguration\<close> never changes the state. It returns false
  when the member ports cannot be collected or the lane-mode aggregation
  (profile path when there is a profile table, else the speed path) throws, and
  true when the aggregation yields a mode. It returns no boolean exactly when
  the aggregation runs into an undefined division, which the \<^verbatim>\<open>catch\<close> does not
  intercept. That cannot happen on the profile path, nor on the speed path when
  neither 0 nor -1 is among the lane speeds: there the check is total.
\<close>

theorem validConfiguration_spec:
  "(\<forall>ex. fst (getSwPorts P state w) = Inl ex \<longrightarrow>
        validConfiguration P state w = (Inr False, w))
   \<and> (\<forall>ports. fst (getSwPorts P state w) = Inr ports \<longrightarrow>
        (\<forall>mode. aggregateDesiredLaneMode P ports w = Inr mode \<longrightarrow>
           validConfiguration P state w = (Inr True, w))
      \<and> (\<forall>ex. aggregateDesiredLaneMode P ports w = Inl ex \<and> \<not> undefinedBehaviour ex \<longrightarrow>
           validConfiguration P state w = (Inr False, w))
      \<and> (\<forall>ex. aggregateDesiredLaneMode P ports w = Inl ex \<and> undefinedBehaviour ex \<longrightarrow>
           validConfiguration P state w = (Inl ex, w)))
   \<and> ((supportedProfiles_ref P = None \<longrightarrow>
          0 \<notin> set (supportedLaneSpeeds P (getPortID (bcmPorts w (controllingPort w))))
          \<and> - 1 \<notin> set (supportedLaneSpeeds P (getPortID (bcmPorts w (controllingPort w))))) \<longrightarrow>
       validConfiguration P state w =
         (Inr (\<exists>ports mode. getSwPorts P state w = (Inr ports, w)
                 \<and> aggregateDesiredLaneMode P ports w = Inr mode), w))"
proof (intro conjI allI impI)
  fix ex
  assume "fst (getSwPorts P state w) = Inl ex"
  then show "validConfiguration P state w = (Inr False, w)"
    by (simp add: validConfiguration_run)
next
  fix ports mode
  assume "fst (getSwPorts P state w) = Inr ports"
    and "aggregateDesiredLaneMode P ports w = Inr mode"
  then show "validConfiguration P state w = (Inr True, w)"
    by (simp add: validConfiguration_run)
next
  fix ports ex
  assume "fst (getSwPorts P state w) = Inr ports"
    and "aggregateDesiredLaneMode P ports w = Inl ex \<and> \<not> undefinedBehaviour ex"
  then show "validConfiguration P state w = (Inr False, w)"
    by (simp add: validConfiguration_run)
next
  fix ports ex
  assume "fst (getSwPorts P state w) = Inr ports"
    and "aggregateDesiredLaneMode P ports w = Inl ex \<and> undefinedBehaviour ex"
  then show "validConfiguration P state w = (Inl ex, w)"
    by (simp add: validConfiguration_run)
next
  assume safe: "supportedProfiles_ref P = None \<longrightarrow>
      0 \<notin> set (supportedLaneSpeeds P (getPortID (bcmPorts w (controllingPort w))))
      \<and> - 1 \<notin> set (supportedLaneSpeeds P (getPortID (bcmPorts w (controllingPort w))))"
  obtain r where g: "getSwPorts P state w = (r, w)"
    using getSwPorts_frame [of P state w] by (cases "getSwPorts P state w") simp
  show "validConfiguration P state w =
         (Inr (\<exists>ports mode. getSwPorts P state w = (Inr ports, w)
                 \<and> aggregateDesiredLaneMode P ports w = Inr mode), w)"
  proof (cases r)
    case (Inl ex)
    with g show ?thesis by (simp add: validConfiguration_run)
  next
    case (Inr ports)
    show ?thesis
    proof (cases "aggregateDesiredLaneMode P ports w")
      case (Inl ex)
      with safe have "\<not> undefinedBehaviour ex"
        by (rule aggregateDesiredLaneMode_defined)
      with g Inr Inl show ?thesis by (simp add: validConfiguration_run)
    next
      case (Inr mode)
      with g \<open>r = Inr ports\<close> show ?thesis by (simp add: validConfiguration_run)
    qed
  qed
qed

theorem validConfiguration_spec_witness:
  "validConfiguration legacyPlatform fourByTen fourLanes = (Inr True, fourLanes)
   \<and> validConfiguration legacyPlatform fortyOnLaneOne fourLanes = (Inr False, fourLanes)
   \<and> validConfiguration flexPlatform [1 \<mapsto> profilePort 1 True 100000 23] fourLanes
       = (Inr True, fourLanes)
   \<and> validConfiguration flexPlatform [1 \<mapsto> profilePort 1 True 100000 5] fourLanes
       = (Inr False, fourLanes)
   \<and> validConfiguration zeroLaneSpeedPlatform fortyOnLaneZero fourLanes
       = (Inl DivideByZero, fourLanes)"
proof -
  have h: "supportedProfiles_ref legacyPlatform = None \<longrightarrow>
      0 \<notin> set (supportedLaneSpeeds legacyPlatform
        (getPortID (bcmPorts fourLanes (controllingPort fourLanes))))
      \<and> - 1 \<notin> set (supportedLaneSpeeds legacyPlatform
        (getPortID (bcmPorts fourLanes (controllingPort fourLanes))))"
    by (simp add: legacyPlatform_def)
  have k: "supportedProfiles_ref flexPlatform = None \<longrightarrow>
      0 \<notin> set (supportedLaneSpeeds flexPlatform
        (getPortID (bcmPorts fourLanes (controllingPort fourLanes))))
      \<and> - 1 \<notin> set (supportedLaneSpeeds flexPlatform
        (getPortID (bcmPorts fourLanes (controllingPort fourLanes))))"
    by (simp add: flexPlatform_def)
  note total = validConfiguration_spec [THEN conjunct2, THEN conjunct2, THEN mp]
  have a: "validConfiguration legacyPlatform fourByTen fourLanes = (Inr True, fourLanes)"
    using total [OF h, of fourByTen]
    by (simp add: calc_defs fixture_defs)
  have b: "validConfiguration legacyPlatform fortyOnLaneOne fourLanes = (Inr False, fourLanes)"
    using total [OF h, of fortyOnLaneOne]
    by (simp add: calc_defs fixture_defs)
  have c: "validConfiguration flexPlatform [1 \<mapsto> profilePort 1 True 100000 23] fourLanes
       = (Inr True, fourLanes)"
    using total [OF k, of "[1 \<mapsto> profilePort 1 True 100000 23]"]
    by (simp add: calc_defs fixture_defs)
  have d: "validConfiguration flexPlatform [1 \<mapsto> profilePort 1 True 100000 5] fourLanes
       = (Inr False, fourLanes)"
    using total [OF k, of "[1 \<mapsto> profilePort 1 True 100000 5]"]
    by (simp add: calc_defs fixture_defs)
  have p: "fst (getSwPorts zeroLaneSpeedPlatform fortyOnLaneZero fourLanes) =
      Inr [speedPort 1 True 40000, speedPort 2 False 10000, speedPort 3 False 10000,
           speedPort 4 False 10000]"
    by (simp add: getSwPorts_def getSwitchStatePort_def zeroLaneSpeedPlatform_def
        legacyPlatform_def fourLanes_def fortyOnLaneZero_def)
  have q: "aggregateDesiredLaneMode zeroLaneSpeedPlatform
      [speedPort 1 True 40000, speedPort 2 False 10000, speedPort 3 False 10000,
       speedPort 4 False 10000] fourLanes = Inl DivideByZero
      \<and> undefinedBehaviour DivideByZero"
    by (simp add: calc_defs fixture_defs undefinedBehaviour_def)
  have e: "validConfiguration zeroLaneSpeedPlatform fortyOnLaneZero fourLanes
       = (Inl DivideByZero, fourLanes)"
    using validConfiguration_spec [THEN conjunct2, THEN conjunct1, rule_format, OF p,
        THEN conjunct2, THEN conjunct2, rule_format, OF q] .
  from a b c d e show ?thesis by simp
qed

subsection \<open>The legacy transition\<close>

lemma setLanesControl_ok:
  "0 \<le> sdk_rv P (trace w) (PortControlSetLanes port lanes) \<Longrightarrow>
   setLanesControl P port lanes w = (Inr (), w\<lparr>trace := trace w @ [PortControlSetLanes port lanes]\<rparr>)"
  by (simp add: setLanesControl_def bcmCheckError_def M_apply)

lemma setLanesControl_refused:
  "sdk_rv P (trace w) (PortControlSetLanes port lanes) < 0 \<Longrightarrow>
   setLanesControl P port lanes w =
     (Inl (HardwareCallFailure (sdk_rv P (trace w) (PortControlSetLanes port lanes))
            (PortControlSetLanes port lanes)),
      w\<lparr>trace := trace w @ [PortControlSetLanes port lanes]\<rparr>)"
  by (simp add: setLanesControl_def bcmCheckError_def M_apply)

text \<open>
  C2. On the legacy path (the controlling port's platform port does not use the
  resource API), with \<open>basePort\<close> the controlling port's logical port: for a
  change between SINGLE and DUAL, in either direction, when the device accepts
  the write of the lane count 4 and then the write of the desired lane count,
  exactly these two writes are issued, in this order, and the recorded lane mode
  becomes the desired one; for every other pair of modes, in particular for a
  change from or to QUAD, when the device accepts the write of the desired lane
  count, exactly this one write is issued and the recorded lane mode becomes
  the desired one. Nothing is asked of any write that is not issued. When the
  device refuses a write, the call fails with HardwareCallFailure after that
  write and the recorded lane mode is left as it was.
\<close>

theorem setActiveLanes_legacy:
  assumes legacy: "\<not> shouldUsePortResourceAPIs P (getPortID (bcmPorts w (controllingPort w)))"
    and base: "basePort = getBcmPortId (bcmPorts w (controllingPort w))"
  shows "((laneMode w = SINGLE \<and> desiredLaneMode = DUAL)
          \<or> (laneMode w = DUAL \<and> desiredLaneMode = SINGLE) \<longrightarrow>
            (0 \<le> sdk_rv P (trace w) (PortControlSetLanes basePort 4)
             \<and> 0 \<le> sdk_rv P (trace w @ [PortControlSetLanes basePort 4])
                    (PortControlSetLanes basePort desiredLaneMode) \<longrightarrow>
               setActiveLanes P ports desiredLaneMode w =
                 (Inr (), w\<lparr>trace := trace w @
                     [PortControlSetLanes basePort 4,
                      PortControlSetLanes basePort desiredLaneMode],
                   laneMode := desiredLaneMode\<rparr>))
          \<and> (sdk_rv P (trace w) (PortControlSetLanes basePort 4) < 0 \<longrightarrow>
               setActiveLanes P ports desiredLaneMode w =
                 (Inl (HardwareCallFailure (sdk_rv P (trace w) (PortControlSetLanes basePort 4))
                        (PortControlSetLanes basePort 4)),
                  w\<lparr>trace := trace w @ [PortControlSetLanes basePort 4]\<rparr>))
          \<and> (0 \<le> sdk_rv P (trace w) (PortControlSetLanes basePort 4)
             \<and> sdk_rv P (trace w @ [PortControlSetLanes basePort 4])
                   (PortControlSetLanes basePort desiredLaneMode) < 0 \<longrightarrow>
               setActiveLanes P ports desiredLaneMode w =
                 (Inl (HardwareCallFailure
                        (sdk_rv P (trace w @ [PortControlSetLanes basePort 4])
                           (PortControlSetLanes basePort desiredLaneMode))
                        (PortControlSetLanes basePort desiredLaneMode)),
                  w\<lparr>trace := trace w @
                     [PortControlSetLanes basePort 4,
                      PortControlSetLanes basePort desiredLaneMode]\<rparr>)))
       \<and> (\<not> ((laneMode w = SINGLE \<and> desiredLaneMode = DUAL)
              \<or> (laneMode w = DUAL \<and> desiredLaneMode = SINGLE)) \<longrightarrow>
            (0 \<le> sdk_rv P (trace w) (PortControlSetLanes basePort desiredLaneMode) \<longrightarrow>
               setActiveLanes P ports desiredLaneMode w =
                 (Inr (), w\<lparr>trace := trace w @ [PortControlSetLanes basePort desiredLaneMode],
                   laneMode := desiredLaneMode\<rparr>))
          \<and> (sdk_rv P (trace w) (PortControlSetLanes basePort desiredLaneMode) < 0 \<longrightarrow>
               setActiveLanes P ports desiredLaneMode w =
                 (Inl (HardwareCallFailure
                        (sdk_rv P (trace w) (PortControlSetLanes basePort desiredLaneMode))
                        (PortControlSetLanes basePort desiredLaneMode)),
                  w\<lparr>trace := trace w @ [PortControlSetLanes basePort desiredLaneMode]\<rparr>)))"
proof (intro conjI impI)
  assume pair: "(laneMode w = SINGLE \<and> desiredLaneMode = DUAL)
      \<or> (laneMode w = DUAL \<and> desiredLaneMode = SINGLE)"
  { assume "0 \<le> sdk_rv P (trace w) (PortControlSetLanes basePort 4)
      \<and> 0 \<le> sdk_rv P (trace w @ [PortControlSetLanes basePort 4])
             (PortControlSetLanes basePort desiredLaneMode)"
    with legacy pair show "setActiveLanes P ports desiredLaneMode w =
        (Inr (), w\<lparr>trace := trace w @
            [PortControlSetLanes basePort 4, PortControlSetLanes basePort desiredLaneMode],
          laneMode := desiredLaneMode\<rparr>)"
      unfolding base by (auto simp: setActiveLanes_def setLanesControl_ok M_apply) }
  { assume "sdk_rv P (trace w) (PortControlSetLanes basePort 4) < 0"
    with legacy pair show "setActiveLanes P ports desiredLaneMode w =
        (Inl (HardwareCallFailure (sdk_rv P (trace w) (PortControlSetLanes basePort 4))
               (PortControlSetLanes basePort 4)),
         w\<lparr>trace := trace w @ [PortControlSetLanes basePort 4]\<rparr>)"
      unfolding base by (auto simp: setActiveLanes_def setLanesControl_refused M_apply) }
  { assume "0 \<le> sdk_rv P (trace w) (PortControlSetLanes basePort 4)
      \<and> sdk_rv P (trace w @ [PortControlSetLanes basePort 4])
            (PortControlSetLanes basePort desiredLaneMode) < 0"
    with legacy pair show "setActiveLanes P ports desiredLaneMode w =
        (Inl (HardwareCallFailure
               (sdk_rv P (trace w @ [PortControlSetLanes basePort 4])
                  (PortControlSetLanes basePort desiredLaneMode))
               (PortControlSetLanes basePort desiredLaneMode)),
         w\<lparr>trace := trace w @
            [PortControlSetLanes basePort 4, PortControlSetLanes basePort desiredLaneMode]\<rparr>)"
      unfolding base
      by (auto simp: setActiveLanes_def setLanesControl_ok setLanesControl_refused M_apply) }
next
  assume other: "\<not> ((laneMode w = SINGLE \<and> desiredLaneMode = DUAL)
      \<or> (laneMode w = DUAL \<and> desiredLaneMode = SINGLE))"
  { assume "0 \<le> sdk_rv P (trace w) (PortControlSetLanes basePort desiredLaneMode)"
    with legacy other show "setActiveLanes P ports desiredLaneMode w =
        (Inr (), w\<lparr>trace := trace w @ [PortControlSetLanes basePort desiredLaneMode],
          laneMode := desiredLaneMode\<rparr>)"
      unfolding base by (auto simp: setActiveLanes_def setLanesControl_ok M_apply) }
  { assume "sdk_rv P (trace w) (PortControlSetLanes basePort desiredLaneMode) < 0"
    with legacy other show "setActiveLanes P ports desiredLaneMode w =
        (Inl (HardwareCallFailure
               (sdk_rv P (trace w) (PortControlSetLanes basePort desiredLaneMode))
               (PortControlSetLanes basePort desiredLaneMode)),
         w\<lparr>trace := trace w @ [PortControlSetLanes basePort desiredLaneMode]\<rparr>)"
      unfolding base by (auto simp: setActiveLanes_def setLanesControl_refused M_apply) }
qed

theorem setActiveLanes_legacy_witness:
  "setActiveLanes strictLanesPlatform [] DUAL fourLanes =
     (Inr (), fourLanes\<lparr>trace := [PortControlSetLanes 1 4, PortControlSetLanes 1 2],
       laneMode := DUAL\<rparr>)
   \<and> setActiveLanes strictLanesPlatform [] QUAD fourLanes =
     (Inr (), fourLanes\<lparr>trace := [PortControlSetLanes 1 4], laneMode := QUAD\<rparr>)
   \<and> setActiveLanes strictLanesPlatform [] 3 fourLanes =
     (Inl (HardwareCallFailure (- 1) (PortControlSetLanes 1 3)),
      fourLanes\<lparr>trace := [PortControlSetLanes 1 3]\<rparr>)
   \<and> sdk_rv strictLanesPlatform [] (PortControlSetLanes 1 2) < 0"
proof -
  have l: "\<not> shouldUsePortResourceAPIs strictLanesPlatform
      (getPortID (bcmPorts fourLanes (controllingPort fourLanes)))"
    by (simp add: strictLanesPlatform_def legacyPlatform_def)
  have b: "(1::int) = getBcmPortId (bcmPorts fourLanes (controllingPort fourLanes))"
    by (simp add: fourLanes_def)
  have m: "laneMode fourLanes = SINGLE" "trace fourLanes = []"
    by (simp_all add: fourLanes_def)
  have rv: "0 \<le> sdk_rv strictLanesPlatform (trace fourLanes) (PortControlSetLanes 1 4)
      \<and> 0 \<le> sdk_rv strictLanesPlatform (trace fourLanes @ [PortControlSetLanes 1 4])
             (PortControlSetLanes 1 DUAL)"
    "0 \<le> sdk_rv strictLanesPlatform (trace fourLanes) (PortControlSetLanes 1 QUAD)"
    "sdk_rv strictLanesPlatform (trace fourLanes) (PortControlSetLanes 1 3) < 0"
    "sdk_rv strictLanesPlatform (trace fourLanes) (PortControlSetLanes 1 3) = - 1"
    "sdk_rv strictLanesPlatform [] (PortControlSetLanes 1 2) < 0"
    by (simp_all add: strictLanesPlatform_def legacyPlatform_def fourLanes_def)
  have p: "(laneMode fourLanes = SINGLE \<and> DUAL = DUAL)
      \<or> (laneMode fourLanes = DUAL \<and> DUAL = SINGLE)"
    "\<not> ((laneMode fourLanes = SINGLE \<and> QUAD = DUAL)
      \<or> (laneMode fourLanes = DUAL \<and> QUAD = SINGLE))"
    "\<not> ((laneMode fourLanes = SINGLE \<and> (3::nat) = DUAL)
      \<or> (laneMode fourLanes = DUAL \<and> (3::nat) = SINGLE))"
    by (simp_all add: fourLanes_def)
  from setActiveLanes_legacy [OF l b, of DUAL "[]", THEN conjunct1, THEN mp, OF p(1),
      THEN conjunct1, THEN mp, OF rv(1)]
    setActiveLanes_legacy [OF l b, of QUAD "[]", THEN conjunct2, THEN mp, OF p(2),
      THEN conjunct1, THEN mp, OF rv(2)]
    setActiveLanes_legacy [OF l b, of 3 "[]", THEN conjunct2, THEN mp, OF p(3),
      THEN conjunct2, THEN mp, OF rv(3)]
    rv(4) rv(5) m
  show ?thesis by simp
qed

text \<open>
  C7. When the controlling port's platform port uses the resource API and the
  platform does not support adding and removing ports, \<^verbatim>\<open>setActiveLanes\<close> throws
  UnsupportedPlatformOperation and leaves the state untouched: nothing is
  written to the lane-count register, the resource builder is not called and
  the legacy branch is not entered.
\<close>

theorem setActiveLanes_unsupported:
  assumes "shouldUsePortResourceAPIs P (getPortID (bcmPorts w (controllingPort w)))"
    and "\<not> supportsAddRemovePort P"
  shows "setActiveLanes P ports desiredLaneMode w =
    (Inl (UnsupportedPlatformOperation (getPortID (bcmPorts w (controllingPort w)))), w)"
  using assms by (simp add: setActiveLanes_def M_apply)

theorem setActiveLanes_unsupported_witness:
  "setActiveLanes noAddRemovePlatform [] QUAD fourLanes =
    (Inl (UnsupportedPlatformOperation 1), fourLanes)"
proof -
  have a: "shouldUsePortResourceAPIs noAddRemovePlatform
      (getPortID (bcmPorts fourLanes (controllingPort fourLanes)))"
    by (simp add: noAddRemovePlatform_def)
  have b: "\<not> supportsAddRemovePort noAddRemovePlatform"
    by (simp add: noAddRemovePlatform_def legacyPlatform_def)
  have c: "getPortID (bcmPorts fourLanes (controllingPort fourLanes)) = 1"
    by (simp add: fourLanes_def)
  from setActiveLanes_unsupported [OF a b, of "[]" QUAD] c show ?thesis by simp
qed

subsection \<open>Relations that every step respects\<close>

lemma stepsWithinD: "stepsWithin R m \<Longrightarrow> m w = (r, w') \<Longrightarrow> R w w'"
  by (auto simp: stepsWithin_def dest: spec [of _ w])

lemma stepsWithin_pure:
  assumes "isPreorder R"
  shows "stepsWithin R (returnM x)" "stepsWithin R (throwM ex)" "stepsWithin R (liftE r)"
    "stepsWithin R (readW g)" "stepsWithin R (getBcmPort ident)" "stepsWithin R (getSwPorts P state)"
  using assms
  by (auto simp: stepsWithin_def isPreorder_def M_apply getBcmPort_def getSwPorts_def
      split: option.splits)


lemma stepsWithin_sdk: "(\<And>w. R w (w\<lparr>trace := trace w @ [c]\<rparr>)) \<Longrightarrow> stepsWithin R (sdk P c)"
  by (simp add: stepsWithin_def M_apply)

lemma stepsWithin_bindM:
  assumes R: "isPreorder R" and m: "stepsWithin R m" and f: "\<And>x. stepsWithin R (f x)"
  shows "stepsWithin R (bindM m f)"
  unfolding stepsWithin_def
proof
  fix w
  obtain r w1 where mw: "m w = (r, w1)" by (cases "m w")
  with m have 1: "R w w1" by (auto dest: stepsWithinD)
  show "R w (snd (bindM m f w))"
  proof (cases r)
    case (Inl ex)
    with mw 1 show ?thesis by (simp add: M_apply)
  next
    case (Inr x)
    obtain r2 w2 where fw: "f x w1 = (r2, w2)" by (cases "f x w1")
    with f have "R w1 w2" by (auto dest: stepsWithinD)
    with 1 R have "R w w2" by (auto simp: isPreorder_def)
    with mw Inr fw show ?thesis by (simp add: M_apply)
  qed
qed




lemma stepsWithin_bcmCheckError: "isPreorder R \<Longrightarrow> stepsWithin R (bcmCheckError rv c)"
  by (simp add: bcmCheckError_def stepsWithin_pure)

lemma stepsWithin_checked:
  "isPreorder R \<Longrightarrow> (\<And>w. R w (w\<lparr>trace := trace w @ [c]\<rparr>)) \<Longrightarrow> stepsWithin R (checked P c)"
  by (simp add: checked_def stepsWithin_bindM stepsWithin_sdk stepsWithin_bcmCheckError)









subsection \<open>Reconfiguration and speed notifications\<close>

lemmas op_defs = reconfigureIfNeeded_def reconfigureLaneMode_def setActiveLanes_def
  setLanesControl_def disableLinkscan_def disable_def enableLinkscan_def checked_def
  bcmCheckError_def getBcmPort_def getSwPort_def linkSpeedChanged_def

lemma notify_same_ports:
  "forM (\<lambda>port.
        bindM (readW (\<lambda>w. getPortID (bcmPorts w port))) (\<lambda>ident.
        case getSwPortIf ports ident of
          None \<Rightarrow> returnM ()
        | Some oldPort \<Rightarrow>
            (case getSwPortIf ports ident of
               None \<Rightarrow> returnM ()
             | Some newPort \<Rightarrow>
                 if getSpeed oldPort \<noteq> getSpeed newPort
                 then linkSpeedChanged port (getSpeed newPort)
                 else returnM ()))) members w = (Inr (), w)"
  by (induction members) (auto simp: M_apply split: option.splits)


text \<open>
  C6. The claim fails for a group recorded in quad-lane mode and a state with
  four enabled 10G ports: \<^verbatim>\<open>reconfigureIfNeeded\<close> with that state as both the
  old and the new state disables the four members and writes the lane count.
\<close>

theorem reconfigureIfNeeded_same_state_counterexample:
  "reconfigureIfNeeded legacyPlatform fourByTen fourByTen quadLanes =
    (Inr (), quadLanes\<lparr>trace :=
        [DisableLinkscan 1, DisablePort 1, DisableLinkscan 2, DisablePort 2,
         DisableLinkscan 3, DisablePort 3, DisableLinkscan 4, DisablePort 4,
         PortControlSetLanes 1 SINGLE,
         EnableLinkscan 1, EnableLinkscan 2, EnableLinkscan 3, EnableLinkscan 4],
      laneMode := SINGLE\<rparr>)"
  by (simp add: op_defs calc_defs fixture_defs M_apply)

text \<open>
  C6, amended. When the lane mode aggregated for the state, wherever it can
  be computed, is the group's recorded lane mode, \<^verbatim>\<open>reconfigureIfNeeded\<close> with
  that state as both the old and the new state issues no call at all and
  leaves the state as it was.
\<close>

theorem reconfigureIfNeeded_same_state:
  assumes "\<forall>ports mode.
      getSwPorts P state w = (Inr ports, w) \<and> aggregateDesiredLaneMode P ports w = Inr mode
      \<longrightarrow> mode = laneMode w"
  shows "snd (reconfigureIfNeeded P state state w) = w"
proof -
  obtain r where g: "getSwPorts P state w = (r, w)"
    using getSwPorts_frame [of P state w] by (cases "getSwPorts P state w") simp
  show ?thesis
  proof (cases r)
    case (Inl ex)
    with g show ?thesis by (simp add: reconfigureIfNeeded_def M_apply)
  next
    case (Inr ports)
    with g assms show ?thesis
      by (auto simp: reconfigureIfNeeded_def aggregateDesiredLaneMode_def M_apply
          notify_same_ports split: option.splits sum.splits)
  qed
qed

theorem reconfigureIfNeeded_same_state_witness:
  "snd (reconfigureIfNeeded legacyPlatform fourByTen fourByTen fourLanes) = fourLanes"
proof -
  have h: "\<forall>ports mode.
      getSwPorts legacyPlatform fourByTen fourLanes = (Inr ports, fourLanes)
      \<and> aggregateDesiredLaneMode legacyPlatform ports fourLanes = Inr mode
      \<longrightarrow> mode = laneMode fourLanes"
    by (auto simp: calc_defs fixture_defs)
  from reconfigureIfNeeded_same_state [OF h] show ?thesis .
qed

subsection \<open>The flex transition, step by step\<close>

lemma checked_step:
  "bindM (sdk P c) (\<lambda>rv. bcmCheckError rv c) w = (Inr u, w1) \<Longrightarrow> w1 = w\<lparr>trace := trace w @ [c]\<rparr>"
  by (auto simp: M_apply bcmCheckError_def split: if_splits)

lemma setPortSpecificControls_Inr:
  assumes "setPortSpecificControls P port enable w = (Inr u, w1)"
  shows "w1 = w\<lparr>trace := trace w @ trapCalls (getBcmPortId (bcmPorts w port)) enable\<rparr>"
proof -
  let ?p = "getBcmPortId (bcmPorts w port)"
  from assms obtain a b c d
    where 1: "switchControlPortSet P ?p bcmSwitchArpRequestToCpu enable w = (Inr (), a)"
      and 2: "switchControlPortSet P ?p bcmSwitchArpReplyToCpu enable a = (Inr (), b)"
      and 3: "switchControlPortSet P ?p bcmSwitchDhcpPktDrop enable b = (Inr (), c)"
      and 4: "switchControlPortSet P ?p bcmSwitchDhcpPktToCpu enable c = (Inr (), d)"
      and 5: "switchControlPortSet P ?p bcmSwitchNdPktToCpu enable d = (Inr u, w1)"
    unfolding setPortSpecificControls_def
    by (auto simp: readW_apply bindM_apply [of "readW _"] elim!: bindM_Inr)
  from 1 have a: "a = w\<lparr>trace := trace w @ [SwitchControlPortSet ?p bcmSwitchArpRequestToCpu enable]\<rparr>"
    unfolding switchControlPortSet_def by (rule checked_step)
  from 2 have b: "b = a\<lparr>trace := trace a @ [SwitchControlPortSet ?p bcmSwitchArpReplyToCpu enable]\<rparr>"
    unfolding switchControlPortSet_def by (rule checked_step)
  from 3 have c: "c = b\<lparr>trace := trace b @ [SwitchControlPortSet ?p bcmSwitchDhcpPktDrop enable]\<rparr>"
    unfolding switchControlPortSet_def by (rule checked_step)
  from 4 have d: "d = c\<lparr>trace := trace c @ [SwitchControlPortSet ?p bcmSwitchDhcpPktToCpu enable]\<rparr>"
    unfolding switchControlPortSet_def by (rule checked_step)
  from 5 have e: "w1 = d\<lparr>trace := trace d @ [SwitchControlPortSet ?p bcmSwitchNdPktToCpu enable]\<rparr>"
    unfolding switchControlPortSet_def by (rule checked_step)
  show ?thesis
    unfolding e d c b a by (simp add: trapCalls_def perPortTraps_def)
qed

lemma forM_trace:
  assumes body: "\<And>x w w1. body x w = (Inr (), w1) \<Longrightarrow> w1 = w\<lparr>trace := trace w @ ev (bcmPorts w) x\<rparr>"
    and run: "forM body xs w = (Inr u, w')"
  shows "w' = w\<lparr>trace := trace w @ concat (map (ev (bcmPorts w)) xs)\<rparr>"
  using run
proof (induction xs arbitrary: w)
  case Nil
  then show ?case by simp
next
  case (Cons x xs)
  from Cons.prems obtain w1 where 1: "body x w = (Inr (), w1)" and 2: "forM body xs w1 = (Inr u, w')"
    by (rule forM_Cons_InrE)
  from 1 have w1: "w1 = w\<lparr>trace := trace w @ ev (bcmPorts w) x\<rparr>" by (rule body)
  from 2 have "w' = w1\<lparr>trace := trace w1 @ concat (map (ev (bcmPorts w1)) xs)\<rparr>" by (rule Cons.IH)
  then show ?case unfolding w1 by simp
qed

lemma purge_loop:
  assumes "forM (\<lambda>port.
        bindM (readW (\<lambda>w. getBcmPortId (bcmPorts w port))) (\<lambda>bcmPortId.
        bindM (l2_addr_delete_by_port P bcmPortId kBcmL2DeleteStatic) (\<lambda>u.
        bindM (l2_addr_delete_by_port P bcmPortId kBcmL2DeletePending) (\<lambda>u.
        setPortSpecificControls P port False)))) members w = (Inr u, w')"
  shows "w' = w\<lparr>trace := trace w @
      concat (map (\<lambda>port. purgeCalls (getBcmPortId (bcmPorts w port))) members)\<rparr>"
proof -
  have step: "w1 = w\<lparr>trace := trace w @ purgeCalls (getBcmPortId (bcmPorts w port))\<rparr>"
    if "bindM (readW (\<lambda>w. getBcmPortId (bcmPorts w port))) (\<lambda>bcmPortId.
        bindM (l2_addr_delete_by_port P bcmPortId kBcmL2DeleteStatic) (\<lambda>u.
        bindM (l2_addr_delete_by_port P bcmPortId kBcmL2DeletePending) (\<lambda>u.
        setPortSpecificControls P port False))) w = (Inr (), w1)" for port w w1
  proof -
    let ?p = "getBcmPortId (bcmPorts w port)"
    from that obtain a b
      where 1: "l2_addr_delete_by_port P ?p kBcmL2DeleteStatic w = (Inr (), a)"
        and 2: "l2_addr_delete_by_port P ?p kBcmL2DeletePending a = (Inr (), b)"
        and 3: "setPortSpecificControls P port False b = (Inr (), w1)"
      by (auto simp: readW_apply bindM_apply [of "readW _"] elim!: bindM_Inr)
    from 1 have a: "a = w\<lparr>trace := trace w @ [L2AddrDeleteByPort ?p kBcmL2DeleteStatic]\<rparr>"
      unfolding l2_addr_delete_by_port_def by (rule checked_step)
    from 2 have b: "b = a\<lparr>trace := trace a @ [L2AddrDeleteByPort ?p kBcmL2DeletePending]\<rparr>"
      unfolding l2_addr_delete_by_port_def by (rule checked_step)
    from 3 have "w1 = b\<lparr>trace := trace b @ trapCalls (getBcmPortId (bcmPorts b port)) False\<rparr>"
      by (rule setPortSpecificControls_Inr)
    then show ?thesis unfolding b a by (simp add: purgeCalls_def)
  qed
  from step assms show ?thesis
    by (rule forM_trace [where ev = "\<lambda>store port. purgeCalls (getBcmPortId (store port))"])
qed

lemma enable_loop:
  assumes "forM (\<lambda>port. setPortSpecificControls P port True) members w = (Inr u, w')"
  shows "w' = w\<lparr>trace := trace w @
      concat (map (\<lambda>port. trapCalls (getBcmPortId (bcmPorts w port)) True) members)\<rparr>"
  using setPortSpecificControls_Inr assms
  by (rule forM_trace [where ev = "\<lambda>store port. trapCalls (getBcmPortId (store port)) True"])

lemma remove_loop:
  "forM (\<lambda>port. bindM (readW (\<lambda>w. getPortID (bcmPorts w port))) removeBcmPort) members w =
    (Inr (), w\<lparr>portTable := (\<lambda>ident.
        if ident \<in> set (map (\<lambda>port. getPortID (bcmPorts w port)) members) then None
        else portTable w ident)\<rparr>)"
  (is "forM ?body members w = _")
proof (induction members arbitrary: w)
  case Nil
  show ?case by simp
next
  case (Cons port members)
  let ?w1 = "w\<lparr>portTable := (portTable w)(getPortID (bcmPorts w port) := None)\<rparr>"
  have "?body port w = (Inr (), ?w1)"
    by (simp add: M_apply removeBcmPort_def)
  then have "forM ?body (port # members) w = forM ?body members ?w1"
    by (rule forM_Cons_Inr)
  also have "\<dots> = (Inr (), ?w1\<lparr>portTable := (\<lambda>ident.
        if ident \<in> set (map (\<lambda>port. getPortID (bcmPorts ?w1 port)) members) then None
        else portTable ?w1 ident)\<rparr>)"
    by (rule Cons.IH)
  also have "\<dots> = (Inr (), w\<lparr>portTable := (\<lambda>ident.
        if ident \<in> set (map (\<lambda>port. getPortID (bcmPorts w port)) (port # members)) then None
        else portTable w ident)\<rparr>)"
    by (auto simp: fun_eq_iff)
  finally show ?case .
qed

lemma register_loop:
  "forM registerInPortGroup members w =
    (Inr (), w\<lparr>bcmPorts := (\<lambda>h.
        if h \<in> set members then (bcmPorts w h)\<lparr>portGroup := Some (thisGroup w)\<rparr>
        else bcmPorts w h)\<rparr>)"
proof (induction members arbitrary: w)
  case Nil
  show ?case by simp
next
  case (Cons member members)
  let ?w1 = "w\<lparr>bcmPorts := (bcmPorts w)(member :=
      (bcmPorts w member)\<lparr>portGroup := Some (thisGroup w)\<rparr>)\<rparr>"
  have "registerInPortGroup member w = (Inr (), ?w1)"
    by (simp add: M_apply registerInPortGroup_def)
  then have "forM registerInPortGroup (member # members) w = forM registerInPortGroup members ?w1"
    by (rule forM_Cons_Inr)
  also have "\<dots> = (Inr (), ?w1\<lparr>bcmPorts := (\<lambda>h.
        if h \<in> set members then (bcmPorts ?w1 h)\<lparr>portGroup := Some (thisGroup ?w1)\<rparr>
        else bcmPorts ?w1 h)\<rparr>)"
    by (rule Cons.IH)
  also have "\<dots> = (Inr (), w\<lparr>bcmPorts := (\<lambda>h.
        if h \<in> set (member # members) then (bcmPorts w h)\<lparr>portGroup := Some (thisGroup w)\<rparr>
        else bcmPorts w h)\<rparr>)"
    by (auto simp: fun_eq_iff)
  finally show ?case .
qed

lemma add_loop:
  "\<exists>w1. mapM (\<lambda>port. bindM (addBcmPort P (getID port)) (\<lambda>u. getBcmPort (getID port))) added w
      = (Inr [nextHandle w..<nextHandle w + length added], w1)
    \<and> nextHandle w1 = nextHandle w + length added
    \<and> trace w1 = trace w \<and> thisGroup w1 = thisGroup w \<and> controllingPort w1 = controllingPort w
    \<and> allPorts w1 = allPorts w \<and> laneMode w1 = laneMode w
    \<and> (\<forall>h. h < nextHandle w \<longrightarrow> bcmPorts w1 h = bcmPorts w h)
    \<and> (\<forall>i. i < length added \<longrightarrow> bcmPorts w1 (nextHandle w + i) = newBcmPort P (getID (added ! i)))
    \<and> (\<forall>ident. ident \<notin> getID ` set added \<longrightarrow> portTable w1 ident = portTable w ident)
    \<and> (\<forall>ident. ident \<in> getID ` set added \<longrightarrow>
          (\<exists>i. i < length added \<and> getID (added ! i) = ident
             \<and> portTable w1 ident = Some (nextHandle w + i)))"
  (is "\<exists>w1. mapM ?body added w = _ \<and> _")
proof (induction added arbitrary: w)
  case Nil
  show ?case by simp
next
  case (Cons port added)
  let ?n = "nextHandle w"
  let ?wa = "w\<lparr>bcmPorts := (bcmPorts w)(?n := newBcmPort P (getID port)),
      nextHandle := Suc ?n, portTable := (portTable w)(getID port \<mapsto> ?n)\<rparr>"
  have step: "?body port w = (Inr ?n, ?wa)"
    by (simp add: M_apply addBcmPort_def getBcmPort_def newBcmPort_def)
  from Cons.IH [of ?wa] obtain w1
    where run: "mapM ?body added ?wa = (Inr [Suc ?n..<Suc ?n + length added], w1)"
      and nh: "nextHandle w1 = Suc ?n + length added"
      and fr: "trace w1 = trace w" "thisGroup w1 = thisGroup w"
        "controllingPort w1 = controllingPort w" "allPorts w1 = allPorts w" "laneMode w1 = laneMode w"
      and old: "\<forall>h. h < Suc ?n \<longrightarrow> bcmPorts w1 h = bcmPorts ?wa h"
      and new: "\<forall>i. i < length added \<longrightarrow>
          bcmPorts w1 (Suc ?n + i) = newBcmPort P (getID (added ! i))"
      and keep: "\<forall>ident. ident \<notin> getID ` set added \<longrightarrow> portTable w1 ident = portTable ?wa ident"
      and ins: "\<forall>ident. ident \<in> getID ` set added \<longrightarrow>
          (\<exists>i. i < length added \<and> getID (added ! i) = ident
             \<and> portTable w1 ident = Some (Suc ?n + i))"
    by auto
  have u: "[?n..<?n + length (port # added)] = ?n # [Suc ?n..<Suc ?n + length added]"
    by (simp add: upt_conv_Cons del: upt_Suc)
  have r: "mapM ?body (port # added) w = (Inr [?n..<?n + length (port # added)], w1)"
    unfolding u by (rule mapM_Cons_Inr [OF step run])
  have o: "\<forall>h. h < ?n \<longrightarrow> bcmPorts w1 h = bcmPorts w h"
    using old by simp
  have n: "\<forall>i. i < length (port # added) \<longrightarrow>
      bcmPorts w1 (?n + i) = newBcmPort P (getID ((port # added) ! i))"
  proof (intro allI impI)
    fix i assume "i < length (port # added)"
    then show "bcmPorts w1 (?n + i) = newBcmPort P (getID ((port # added) ! i))"
      using old new by (cases i) auto
  qed
  have k: "\<forall>ident. ident \<notin> getID ` set (port # added) \<longrightarrow> portTable w1 ident = portTable w ident"
    using keep by auto
  have i: "\<forall>ident. ident \<in> getID ` set (port # added) \<longrightarrow>
          (\<exists>i. i < length (port # added) \<and> getID ((port # added) ! i) = ident
             \<and> portTable w1 ident = Some (?n + i))"
  proof (intro allI impI)
    fix ident assume m: "ident \<in> getID ` set (port # added)"
    show "\<exists>i. i < length (port # added) \<and> getID ((port # added) ! i) = ident
             \<and> portTable w1 ident = Some (?n + i)"
    proof (cases "ident \<in> getID ` set added")
      case True
      with ins obtain j where "j < length added" "getID (added ! j) = ident"
        "portTable w1 ident = Some (Suc ?n + j)" by blast
      then show ?thesis by (intro exI [of _ "Suc j"]) simp
    next
      case False
      with m have "ident = getID port" by auto
      moreover from False keep have "portTable w1 ident = portTable ?wa ident" by blast
      ultimately show ?thesis by (intro exI [of _ 0]) simp
    qed
  qed
  from r nh fr o n k i show ?case
    by (intro exI [of _ w1]) simp
qed

lemma getBcmPort_Inr:
  "getBcmPort ident w = (Inr h, w1) \<Longrightarrow> w1 = w \<and> portTable w ident = Some h"
  by (auto simp: getBcmPort_def split: option.splits)

lemma flex_run:
  assumes "setActiveLanesWithFlexPortApi P ports desiredLaneMode w = (Inr (), w')"
  obtains w1 w2 w3 w4 w5 w6 w7 w8 w9 added newPorts handle where
    "forM (\<lambda>port.
        bindM (readW (\<lambda>w. getBcmPortId (bcmPorts w port))) (\<lambda>bcmPortId.
        bindM (l2_addr_delete_by_port P bcmPortId kBcmL2DeleteStatic) (\<lambda>u.
        bindM (l2_addr_delete_by_port P bcmPortId kBcmL2DeletePending) (\<lambda>u.
        setPortSpecificControls P port False)))) (allPorts w) w = (Inr (), w1)"
    "removePorts P (allPorts w1) w1 = (Inr (), w2)"
    "addPorts P desiredLaneMode ports w2 = (Inr added, w3)"
    "program P w3 = (Inr (), w4)"
    "forM (\<lambda>port. bindM (readW (\<lambda>w. getPortID (bcmPorts w port))) removeBcmPort) (allPorts w4) w4
      = (Inr (), w5)"
    "mapM (\<lambda>port. bindM (addBcmPort P (getID port)) (\<lambda>u. getBcmPort (getID port))) added w5
      = (Inr newPorts, w6)"
    "getBcmPort (getPortID (bcmPorts w4 (controllingPort w4))) w6 = (Inr handle, w7)"
    "forM registerInPortGroup newPorts (w7\<lparr>controllingPort := handle, allPorts := newPorts\<rparr>)
      = (Inr (), w8)"
    "forM (\<lambda>port. setPortSpecificControls P port True) (allPorts w8) w8 = (Inr (), w9)"
    "w' = w9\<lparr>laneMode := desiredLaneMode\<rparr>"
  using assms unfolding setActiveLanesWithFlexPortApi_def
  by (auto simp: readW_apply modifyW_apply bindM_apply [of "readW _"] bindM_apply [of "modifyW _"]
      elim!: bindM_Inr)

lemma checked_Inr: "checked P c w = (Inr u, w1) \<Longrightarrow> w1 = w\<lparr>trace := trace w @ [c]\<rparr>"
  unfolding checked_def by (rule checked_step)

lemma removePorts_Inr:
  "removePorts P members w = (Inr u, w1) \<Longrightarrow>
   w1 = w\<lparr>trace := trace w @ [ResourceRemovePorts (map (\<lambda>port. getPortID (bcmPorts w port)) members)]\<rparr>"
  unfolding removePorts_def
  by (auto simp: readW_apply bindM_apply [of "readW _"] dest: checked_Inr)

lemma addPorts_Inr:
  "addPorts P mode ports w = (Inr added, w1) \<Longrightarrow>
   added = addedPorts P mode ports \<and> w1 = w\<lparr>trace := trace w @ [ResourceAddPorts (map getID ports)]\<rparr>"
  unfolding addPorts_def
  by (auto simp: returnM_apply elim!: bindM_Inr dest: checked_Inr)

lemma program_Inr:
  "program P w = (Inr u, w1) \<Longrightarrow> w1 = w\<lparr>trace := trace w @ [ResourceProgram]\<rparr>"
  unfolding program_def by (rule checked_Inr)

lemma flex_post:
  assumes run: "setActiveLanesWithFlexPortApi P ports desiredLaneMode w = (Inr (), w')"
  defines "added \<equiv> addedPorts P desiredLaneMode ports"
  defines "n \<equiv> nextHandle w"
  shows "allPorts w' = [n..<n + length added]"
    and "\<forall>i. i < length added \<longrightarrow>
          bcmPorts w' (n + i) = (newBcmPort P (getID (added ! i)))\<lparr>portGroup := Some (thisGroup w)\<rparr>"
    and "\<forall>h. h < n \<longrightarrow> bcmPorts w' h = bcmPorts w h"
    and "\<forall>ident. ident \<in> getID ` set added \<longrightarrow>
          (\<exists>i. i < length added \<and> getID (added ! i) = ident \<and> portTable w' ident = Some (n + i))"
    and "\<forall>ident. ident \<notin> getID ` set added \<longrightarrow>
          portTable w' ident =
            (if ident \<in> set (map (\<lambda>port. getPortID (bcmPorts w port)) (allPorts w)) then None
             else portTable w ident)"
    and "portTable w' (getPortID (bcmPorts w (controllingPort w))) = Some (controllingPort w')"
    and "laneMode w' = desiredLaneMode"
    and "thisGroup w' = thisGroup w"
    and "nextHandle w' = n + length added"
    and "trace w' = trace w
        @ concat (map (\<lambda>port. purgeCalls (getBcmPortId (bcmPorts w port))) (allPorts w))
        @ [ResourceRemovePorts (map (\<lambda>port. getPortID (bcmPorts w port)) (allPorts w)),
           ResourceAddPorts (map getID ports), ResourceProgram]
        @ concat (map (\<lambda>ident. trapCalls (logicalPort P ident) True) (map getID added))"
proof -
  from run obtain w1 w2 w3 w4 w5 w6 w7 w8 w9 added' newPorts handle where
    1: "forM (\<lambda>port.
        bindM (readW (\<lambda>w. getBcmPortId (bcmPorts w port))) (\<lambda>bcmPortId.
        bindM (l2_addr_delete_by_port P bcmPortId kBcmL2DeleteStatic) (\<lambda>u.
        bindM (l2_addr_delete_by_port P bcmPortId kBcmL2DeletePending) (\<lambda>u.
        setPortSpecificControls P port False)))) (allPorts w) w = (Inr (), w1)"
    and 2: "removePorts P (allPorts w1) w1 = (Inr (), w2)"
    and 3: "addPorts P desiredLaneMode ports w2 = (Inr added', w3)"
    and 4: "program P w3 = (Inr (), w4)"
    and 5: "forM (\<lambda>port. bindM (readW (\<lambda>w. getPortID (bcmPorts w port))) removeBcmPort)
        (allPorts w4) w4 = (Inr (), w5)"
    and 6: "mapM (\<lambda>port. bindM (addBcmPort P (getID port)) (\<lambda>u. getBcmPort (getID port))) added' w5
      = (Inr newPorts, w6)"
    and 7: "getBcmPort (getPortID (bcmPorts w4 (controllingPort w4))) w6 = (Inr handle, w7)"
    and 8: "forM registerInPortGroup newPorts (w7\<lparr>controllingPort := handle, allPorts := newPorts\<rparr>)
      = (Inr (), w8)"
    and 9: "forM (\<lambda>port. setPortSpecificControls P port True) (allPorts w8) w8 = (Inr (), w9)"
    and 10: "w' = w9\<lparr>laneMode := desiredLaneMode\<rparr>"
    by (rule flex_run)
  let ?oldIds = "map (\<lambda>port. getPortID (bcmPorts w port)) (allPorts w)"
  from 1 have w1: "w1 = w\<lparr>trace := trace w @
      concat (map (\<lambda>port. purgeCalls (getBcmPortId (bcmPorts w port))) (allPorts w))\<rparr>"
    by (rule purge_loop)
  from 2 have w2: "w2 = w1\<lparr>trace := trace w1 @ [ResourceRemovePorts ?oldIds]\<rparr>"
    by (auto dest: removePorts_Inr simp: w1)
  from 3 have a: "added' = added"
    and w3: "w3 = w2\<lparr>trace := trace w2 @ [ResourceAddPorts (map getID ports)]\<rparr>"
    by (auto dest: addPorts_Inr simp: added_def)
  from 4 have w4: "w4 = w3\<lparr>trace := trace w3 @ [ResourceProgram]\<rparr>"
    by (rule program_Inr)
  have f4: "bcmPorts w4 = bcmPorts w" "allPorts w4 = allPorts w" "portTable w4 = portTable w"
    "nextHandle w4 = n" "thisGroup w4 = thisGroup w" "controllingPort w4 = controllingPort w"
    "trace w4 = trace w @ concat (map (\<lambda>port. purgeCalls (getBcmPortId (bcmPorts w port))) (allPorts w))
      @ [ResourceRemovePorts ?oldIds, ResourceAddPorts (map getID ports), ResourceProgram]"
    by (simp_all add: w4 w3 w2 w1 n_def)
  from 5 have "w5 = w4\<lparr>portTable := (\<lambda>ident.
        if ident \<in> set (map (\<lambda>port. getPortID (bcmPorts w4 port)) (allPorts w4)) then None
        else portTable w4 ident)\<rparr>"
    by (simp add: remove_loop)
  then have w5: "w5 = w4\<lparr>portTable := (\<lambda>ident. if ident \<in> set ?oldIds then None
        else portTable w ident)\<rparr>"
    unfolding f4 .
  have f5: "nextHandle w5 = n" "bcmPorts w5 = bcmPorts w" "thisGroup w5 = thisGroup w"
    "trace w5 = trace w4"
    "portTable w5 = (\<lambda>ident. if ident \<in> set ?oldIds then None else portTable w ident)"
    by (simp_all add: w5 f4)
  from add_loop [of P added w5] 6 [unfolded a] f5
  have np: "newPorts = [n..<n + length added]"
    and f6: "nextHandle w6 = n + length added" "trace w6 = trace w4" "thisGroup w6 = thisGroup w"
    and old6: "\<forall>h. h < n \<longrightarrow> bcmPorts w6 h = bcmPorts w h"
    and new6: "\<forall>i. i < length added \<longrightarrow> bcmPorts w6 (n + i) = newBcmPort P (getID (added ! i))"
    and keep6: "\<forall>ident. ident \<notin> getID ` set added \<longrightarrow> portTable w6 ident =
        (if ident \<in> set ?oldIds then None else portTable w ident)"
    and ins6: "\<forall>ident. ident \<in> getID ` set added \<longrightarrow>
          (\<exists>i. i < length added \<and> getID (added ! i) = ident \<and> portTable w6 ident = Some (n + i))"
    by auto
  from 7 have w7: "w7 = w6" and cp: "portTable w6 (getPortID (bcmPorts w (controllingPort w))) = Some handle"
    by (auto dest: getBcmPort_Inr simp: f4)
  have "forM registerInPortGroup newPorts (w7\<lparr>controllingPort := handle, allPorts := newPorts\<rparr>)
      = (Inr (), (w7\<lparr>controllingPort := handle, allPorts := newPorts\<rparr>)\<lparr>bcmPorts := (\<lambda>h.
        if h \<in> set newPorts
        then (bcmPorts (w7\<lparr>controllingPort := handle, allPorts := newPorts\<rparr>) h)
          \<lparr>portGroup := Some (thisGroup (w7\<lparr>controllingPort := handle, allPorts := newPorts\<rparr>))\<rparr>
        else bcmPorts (w7\<lparr>controllingPort := handle, allPorts := newPorts\<rparr>) h)\<rparr>)"
    by (rule register_loop)
  with 8 have "w8 = (w7\<lparr>controllingPort := handle, allPorts := newPorts\<rparr>)\<lparr>bcmPorts := (\<lambda>h.
        if h \<in> set newPorts
        then (bcmPorts (w7\<lparr>controllingPort := handle, allPorts := newPorts\<rparr>) h)
          \<lparr>portGroup := Some (thisGroup (w7\<lparr>controllingPort := handle, allPorts := newPorts\<rparr>))\<rparr>
        else bcmPorts (w7\<lparr>controllingPort := handle, allPorts := newPorts\<rparr>) h)\<rparr>"
    by simp
  then have f8: "allPorts w8 = newPorts" "controllingPort w8 = handle"
    "portTable w8 = portTable w6" "trace w8 = trace w4" "thisGroup w8 = thisGroup w"
    "nextHandle w8 = n + length added"
    "bcmPorts w8 = (\<lambda>h. if h \<in> set newPorts
        then (bcmPorts w6 h)\<lparr>portGroup := Some (thisGroup w)\<rparr> else bcmPorts w6 h)"
    by (simp_all add: w7 f6 cong: if_cong)
  from 9 have w9: "w9 = w8\<lparr>trace := trace w8 @
      concat (map (\<lambda>port. trapCalls (getBcmPortId (bcmPorts w8 port)) True) (allPorts w8))\<rparr>"
    by (rule enable_loop)
  have f': "allPorts w' = allPorts w8" "controllingPort w' = controllingPort w8"
    "portTable w' = portTable w8" "thisGroup w' = thisGroup w8" "nextHandle w' = nextHandle w8"
    "bcmPorts w' = bcmPorts w8" "laneMode w' = desiredLaneMode"
    "trace w' = trace w8 @
      concat (map (\<lambda>port. trapCalls (getBcmPortId (bcmPorts w8 port)) True) (allPorts w8))"
    by (simp_all add: 10 w9)
  show "allPorts w' = [n..<n + length added]"
    by (simp add: f' f8 np)
  show new: "\<forall>i. i < length added \<longrightarrow>
          bcmPorts w' (n + i) = (newBcmPort P (getID (added ! i)))\<lparr>portGroup := Some (thisGroup w)\<rparr>"
    using new6 by (simp add: f' f8 np)
  show "\<forall>h. h < n \<longrightarrow> bcmPorts w' h = bcmPorts w h"
    using old6 by (simp add: f' f8 np)
  show "\<forall>ident. ident \<in> getID ` set added \<longrightarrow>
          (\<exists>i. i < length added \<and> getID (added ! i) = ident \<and> portTable w' ident = Some (n + i))"
    using ins6 by (simp add: f' f8)
  show "\<forall>ident. ident \<notin> getID ` set added \<longrightarrow>
          portTable w' ident = (if ident \<in> set ?oldIds then None else portTable w ident)"
    using keep6 by (simp add: f' f8)
  show "portTable w' (getPortID (bcmPorts w (controllingPort w))) = Some (controllingPort w')"
    using cp by (simp add: f' f8)
  show "laneMode w' = desiredLaneMode" by (simp add: f')
  show "thisGroup w' = thisGroup w" by (simp add: f' f8)
  show "nextHandle w' = n + length added" by (simp add: f' f8)
  have "map (\<lambda>port. trapCalls (getBcmPortId (bcmPorts w8 port)) True) (allPorts w8)
      = map (\<lambda>ident. trapCalls (logicalPort P ident) True) (map getID added)"
  proof (rule nth_equalityI)
    show "length (map (\<lambda>port. trapCalls (getBcmPortId (bcmPorts w8 port)) True) (allPorts w8))
        = length (map (\<lambda>ident. trapCalls (logicalPort P ident) True) (map getID added))"
      by (simp add: f8 np)
  next
    fix i
    assume "i < length (map (\<lambda>port. trapCalls (getBcmPortId (bcmPorts w8 port)) True) (allPorts w8))"
    then have i: "i < length added" by (simp add: f8 np)
    with new6 have "bcmPorts w6 (n + i) = newBcmPort P (getID (added ! i))" by blast
    with i show "map (\<lambda>port. trapCalls (getBcmPortId (bcmPorts w8 port)) True) (allPorts w8) ! i
        = map (\<lambda>ident. trapCalls (logicalPort P ident) True) (map getID added) ! i"
      by (simp add: f8 np newBcmPort_def)
  qed
  then show "trace w' = trace w
        @ concat (map (\<lambda>port. purgeCalls (getBcmPortId (bcmPorts w port))) (allPorts w))
        @ [ResourceRemovePorts (map (\<lambda>port. getPortID (bcmPorts w port)) (allPorts w)),
           ResourceAddPorts (map getID ports), ResourceProgram]
        @ concat (map (\<lambda>ident. trapCalls (logicalPort P ident) True) (map getID added))"
    by (simp add: f' f8 f4)
qed

subsection \<open>After a flex transition\<close>

text \<open>
  C8. When \<^verbatim>\<open>setActiveLanesWithFlexPortApi\<close> returns: an old member identifier
  that was not created anew has no entry in the port table; every newly
  created identifier has an entry, whose handle is new, is a member of the
  group and denotes a port with that identifier; entries of other identifiers
  are as before; the controlling port is the handle the table holds for the
  controlling port's identifier; the members are the newly created ports, each
  registered in this group; the calls issued are the purge of every old member
  (both kinds of forwarding entries, then the five traps cleared), the three
  builder calls, and the same five traps set on every new member; and the
  recorded lane mode is the desired one.
\<close>

theorem setActiveLanesWithFlexPortApi_post:
  assumes run: "setActiveLanesWithFlexPortApi P ports desiredLaneMode w = (Inr (), w')"
  shows "(\<forall>ident. ident \<in> set (map (\<lambda>port. getPortID (bcmPorts w port)) (allPorts w))
              \<and> ident \<notin> set (map getID (addedPorts P desiredLaneMode ports))
            \<longrightarrow> portTable w' ident = None)
    \<and> (\<forall>ident. ident \<in> set (map getID (addedPorts P desiredLaneMode ports))
            \<longrightarrow> (\<exists>h. portTable w' ident = Some h \<and> nextHandle w \<le> h \<and> h \<in> set (allPorts w')
                   \<and> getPortID (bcmPorts w' h) = ident))
    \<and> (\<forall>ident. ident \<notin> set (map (\<lambda>port. getPortID (bcmPorts w port)) (allPorts w))
              \<and> ident \<notin> set (map getID (addedPorts P desiredLaneMode ports))
            \<longrightarrow> portTable w' ident = portTable w ident)
    \<and> portTable w' (getPortID (bcmPorts w (controllingPort w))) = Some (controllingPort w')
    \<and> map (\<lambda>port. getPortID (bcmPorts w' port)) (allPorts w')
        = map getID (addedPorts P desiredLaneMode ports)
    \<and> (\<forall>member. member \<in> set (allPorts w')
            \<longrightarrow> portGroup (bcmPorts w' member) = Some (thisGroup w') \<and> nextHandle w \<le> member)
    \<and> trace w' = trace w
        @ concat (map (\<lambda>port. purgeCalls (getBcmPortId (bcmPorts w port))) (allPorts w))
        @ [ResourceRemovePorts (map (\<lambda>port. getPortID (bcmPorts w port)) (allPorts w)),
           ResourceAddPorts (map getID ports), ResourceProgram]
        @ concat (map (\<lambda>port. trapCalls (getBcmPortId (bcmPorts w' port)) True) (allPorts w'))
    \<and> laneMode w' = desiredLaneMode"
proof -
  let ?added = "addedPorts P desiredLaneMode ports"
  let ?n = "nextHandle w"
  note post = flex_post [OF run]
  have members: "allPorts w' = [?n..<?n + length ?added]" by (rule post(1))
  have obj: "bcmPorts w' (?n + i) = (newBcmPort P (getID (?added ! i)))\<lparr>portGroup := Some (thisGroup w)\<rparr>"
    if "i < length ?added" for i using post(2) that by blast
  have ids: "map (\<lambda>port. getPortID (bcmPorts w' port)) (allPorts w') = map getID ?added"
    by (rule nth_equalityI) (simp_all add: members obj newBcmPort_def)
  have traps: "map (\<lambda>port. trapCalls (getBcmPortId (bcmPorts w' port)) True) (allPorts w')
      = map (\<lambda>ident. trapCalls (logicalPort P ident) True) (map getID ?added)"
    by (rule nth_equalityI) (simp_all add: members obj newBcmPort_def)
  have 1: "\<forall>ident. ident \<in> set (map (\<lambda>port. getPortID (bcmPorts w port)) (allPorts w))
              \<and> ident \<notin> set (map getID ?added) \<longrightarrow> portTable w' ident = None"
    using post(5) by simp
  have 2: "\<forall>ident. ident \<in> set (map getID ?added)
            \<longrightarrow> (\<exists>h. portTable w' ident = Some h \<and> ?n \<le> h \<and> h \<in> set (allPorts w')
                   \<and> getPortID (bcmPorts w' h) = ident)"
  proof (intro allI impI)
    fix ident assume "ident \<in> set (map getID ?added)"
    with post(4) obtain i where i: "i < length ?added" "getID (?added ! i) = ident"
      "portTable w' ident = Some (?n + i)" by auto
    then show "\<exists>h. portTable w' ident = Some h \<and> ?n \<le> h \<and> h \<in> set (allPorts w')
                   \<and> getPortID (bcmPorts w' h) = ident"
      by (intro exI [of _ "?n + i"]) (simp add: members obj newBcmPort_def)
  qed
  have 3: "\<forall>ident. ident \<notin> set (map (\<lambda>port. getPortID (bcmPorts w port)) (allPorts w))
              \<and> ident \<notin> set (map getID ?added) \<longrightarrow> portTable w' ident = portTable w ident"
    using post(5) by simp
  have 6: "\<forall>member. member \<in> set (allPorts w')
            \<longrightarrow> portGroup (bcmPorts w' member) = Some (thisGroup w') \<and> ?n \<le> member"
  proof (intro allI impI)
    fix member assume "member \<in> set (allPorts w')"
    then obtain i where "member = ?n + i" "i < length ?added"
      unfolding members by (auto simp: nat_le_iff_add)
    then show "portGroup (bcmPorts w' member) = Some (thisGroup w') \<and> ?n \<le> member"
      by (simp add: obj post(8))
  qed
  have 7: "trace w' = trace w
        @ concat (map (\<lambda>port. purgeCalls (getBcmPortId (bcmPorts w port))) (allPorts w))
        @ [ResourceRemovePorts (map (\<lambda>port. getPortID (bcmPorts w port)) (allPorts w)),
           ResourceAddPorts (map getID ports), ResourceProgram]
        @ concat (map (\<lambda>port. trapCalls (getBcmPortId (bcmPorts w' port)) True) (allPorts w'))"
    unfolding traps post(10) by simp
  from 1 2 3 post(6) ids 6 7 post(7) show ?thesis by blast
qed

lemmas flex_defs = setActiveLanesWithFlexPortApi_def l2_addr_delete_by_port_def
  setPortSpecificControls_def switchControlPortSet_def removePorts_def addPorts_def program_def
  checked_def bcmCheckError_def removeBcmPort_def addBcmPort_def getBcmPort_def
  registerInPortGroup_def newBcmPort_def kBcmL2DeleteStatic_def kBcmL2DeletePending_def

lemma flex_fixture_run:
  "fst (setActiveLanesWithFlexPortApi flexPlatform [profilePort 1 True 100000 23] QUAD fourLanes)
    = Inr ()"
  by (simp add: flex_defs flexPlatform_def legacyPlatform_def fourLanes_def profilePort_def M_apply)

theorem setActiveLanesWithFlexPortApi_post_witness:
  "fst (setActiveLanesWithFlexPortApi flexPlatform [profilePort 1 True 100000 23] QUAD fourLanes)
      = Inr ()
   \<and> portTable (snd (setActiveLanesWithFlexPortApi flexPlatform
        [profilePort 1 True 100000 23] QUAD fourLanes)) 2 = None
   \<and> portTable (snd (setActiveLanesWithFlexPortApi flexPlatform
        [profilePort 1 True 100000 23] QUAD fourLanes)) 1
      = Some (controllingPort (snd (setActiveLanesWithFlexPortApi flexPlatform
        [profilePort 1 True 100000 23] QUAD fourLanes)))
   \<and> map (\<lambda>port. getPortID (bcmPorts (snd (setActiveLanesWithFlexPortApi flexPlatform
        [profilePort 1 True 100000 23] QUAD fourLanes)) port))
        (allPorts (snd (setActiveLanesWithFlexPortApi flexPlatform
        [profilePort 1 True 100000 23] QUAD fourLanes))) = [1]
   \<and> laneMode (snd (setActiveLanesWithFlexPortApi flexPlatform
        [profilePort 1 True 100000 23] QUAD fourLanes)) = QUAD"
proof -
  let ?w' = "snd (setActiveLanesWithFlexPortApi flexPlatform
      [profilePort 1 True 100000 23] QUAD fourLanes)"
  have run: "setActiveLanesWithFlexPortApi flexPlatform [profilePort 1 True 100000 23] QUAD fourLanes
      = (Inr (), ?w')"
    using flex_fixture_run by (simp add: prod_eq_iff)
  have old: "map (\<lambda>port. getPortID (bcmPorts fourLanes port)) (allPorts fourLanes) = [1, 2, 3, 4]"
    "getPortID (bcmPorts fourLanes (controllingPort fourLanes)) = 1"
    by (simp_all add: fourLanes_def)
  have new: "map getID (addedPorts flexPlatform QUAD [profilePort 1 True 100000 23]) = [1]"
    by (simp add: flexPlatform_def legacyPlatform_def profilePort_def)
  from setActiveLanesWithFlexPortApi_post [OF run] flex_fixture_run
  show ?thesis unfolding old new by simp
qed

subsection \<open>Members across a transition\<close>
















subsection \<open>The order of the members\<close>





end
